theory Spec2Isabelle
  imports Main "HOL-Library.Sublist" "HOL-Library.AList"
begin

section \<open>Values, failures and the Python operations of \<^verbatim>\<open>jupyter.py\<close>\<close>

text \<open>
  The analyzer of \<^verbatim>\<open>src/analyzers/Jupyter/jupyter.py\<close> works on decoded JSON: the job
  handed to it, the replies of the hub's REST interface, the progress events, the kernel
  messages and the notebook nodes are dictionaries, lists, strings, numbers, booleans and
  \<^verbatim>\<open>None\<close>. A dictionary is an association list read with \<open>map_of\<close> and written with
  \<open>AList.update\<close>, which keeps the insertion order as a Python dictionary does. Numbers are
  integers; no definition below computes with a number.
\<close>

datatype json =
    JNull
  | JBool bool
  | JNum int
  | JStr string
  | JArr "json list"
  | JObj "(string \<times> json) list"

text \<open>
  Every way the source can stop with an exception is a value. \<open>KeyError\<close>, \<open>TypeError\<close> and
  \<open>AttributeError\<close> are raised by Python itself on a missing key, on an operation a value
  does not support (subscripting \<^verbatim>\<open>None\<close>, \<^verbatim>\<open>None + "..."\<close>, decoding \<^verbatim>\<open>None\<close>) and on a missing
  method. \<open>ValueError\<close> is the \<^verbatim>\<open>raise ValueError(...)\<close> of \<^verbatim>\<open>start_server\<close> and
  \<^verbatim>\<open>stop_server\<close>, with its message. \<open>AnalyzerError\<close> is \<^verbatim>\<open>self.error(message)\<close>: the
  Cortex base class reports the message as the job's failure and ends the process, so
  nothing after the call runs. \<open>Upstream\<close> is an exception raised inside a collaborator
  (requests, tornado, papermill, nbformat, nbconvert), named by the collaborator.
\<close>

datatype error =
    KeyError string
  | TypeError
  | AttributeError
  | ValueError string
  | AnalyzerError string
  | Upstream string

text \<open>
  What a collaborator gives back: \<open>Inl x\<close> when the call raised \<open>x\<close>, \<open>Inr v\<close> when it returned
  \<open>v\<close>. A \<open>frame\<close> is one item read from a stream (a kernel message read from the websocket
  and decoded, a progress event, the reply to one poll).
\<close>

type_synonym 'a outcome = "string + 'a"
type_synonym frame = "json outcome"

definition then_do :: "error + 'a \<Rightarrow> ('a \<Rightarrow> error + 'b) \<Rightarrow> error + 'b" where
  "then_do r f = (case r of Inl e \<Rightarrow> Inl e | Inr v \<Rightarrow> f v)"

definition upstream :: "'a outcome \<Rightarrow> error + 'a" where
  "upstream r = (case r of Inl x \<Rightarrow> Inl (Upstream x) | Inr v \<Rightarrow> Inr v)"

text \<open>\<^verbatim>\<open>v[k]\<close> with a string key: only a dictionary can be read this way.\<close>

fun subscript :: "json \<Rightarrow> string \<Rightarrow> error + json" where
  "subscript (JObj kvs) k = (case map_of kvs k of None \<Rightarrow> Inl (KeyError k) | Some v \<Rightarrow> Inr v)"
| "subscript _ k = Inl TypeError"

text \<open>\<^verbatim>\<open>v[k] = x\<close> with a string key.\<close>

fun set_item :: "json \<Rightarrow> string \<Rightarrow> json \<Rightarrow> error + json" where
  "set_item (JObj kvs) k x = Inr (JObj (AList.update k x kvs))"
| "set_item _ k x = Inl TypeError"

text \<open>\<^verbatim>\<open>v.get(k, d)\<close>: a method of dictionaries only.\<close>

fun py_get :: "json \<Rightarrow> string \<Rightarrow> json \<Rightarrow> error + json" where
  "py_get (JObj kvs) k d = Inr (case map_of kvs k of None \<Rightarrow> d | Some v \<Rightarrow> v)"
| "py_get _ k d = Inl AttributeError"

text \<open>The truth value Python gives a decoded JSON value in \<^verbatim>\<open>if v\<close> and \<^verbatim>\<open>not v\<close>.\<close>

fun truthy :: "json \<Rightarrow> bool" where
  "truthy JNull = False"
| "truthy (JBool b) = b"
| "truthy (JNum n) = (n \<noteq> 0)"
| "truthy (JStr s) = (s \<noteq> [])"
| "truthy (JArr xs) = (xs \<noteq> [])"
| "truthy (JObj kvs) = (kvs \<noteq> [])"

text \<open>
  \<^verbatim>\<open>k in v\<close> for a string \<open>k\<close>: a key of a dictionary, an element of a list, a substring of a
  string; the other values are not containers.
\<close>

fun py_in :: "string \<Rightarrow> json \<Rightarrow> error + bool" where
  "py_in k (JObj kvs) = Inr (map_of kvs k \<noteq> None)"
| "py_in k (JArr xs) = Inr (JStr k \<in> set xs)"
| "py_in k (JStr s) = Inr (sublist k s)"
| "py_in k _ = Inl TypeError"

text \<open>
  A value inside an f-string or under \<^verbatim>\<open>str(...)\<close>: a string stands for itself, any other
  value is rendered by Python's \<^verbatim>\<open>str\<close>, which is a parameter here.
\<close>

definition format_value :: "(json \<Rightarrow> string) \<Rightarrow> json \<Rightarrow> string" where
  "format_value py_str v = (case v of JStr s \<Rightarrow> s | _ \<Rightarrow> py_str v)"

text \<open>\<^verbatim>\<open>s.rstrip("/")\<close>.\<close>

definition rstrip_slash :: "string \<Rightarrow> string" where
  "rstrip_slash s = rev (dropWhile (\<lambda>c. c = CHR ''/'') (rev s))"

text \<open>
  \<^verbatim>\<open>s.replace(old, new)\<close>: the occurrences of \<open>old\<close> are replaced from the left, without
  overlap. An empty \<open>old\<close> matches before every character and at the end.
\<close>

function replace_from :: "string \<Rightarrow> string \<Rightarrow> string \<Rightarrow> string" where
  "replace_from old new s =
     (if old = [] \<or> s = [] then s
      else if prefix old s then new @ replace_from old new (drop (length old) s)
      else hd s # replace_from old new (tl s))"
  by pat_completeness auto
termination
  by (relation "measure (\<lambda>(old, new, s). length s)") auto

declare replace_from.simps [simp del]

definition py_replace :: "string \<Rightarrow> string \<Rightarrow> string \<Rightarrow> string" where
  "py_replace old new s =
     (if old = [] then new @ concat (map (\<lambda>c. c # new) s) else replace_from old new s)"

section \<open>Waiting for the reply to one execute request\<close>

text \<open>
  The body of the \<^verbatim>\<open>while 1\<close> loop of \<^verbatim>\<open>execute_notebook_remotely\<close> (lines 308 to 339) on
  one frame: \<open>Some r\<close> when it leaves the loop with \<open>r\<close> (a \<^verbatim>\<open>break\<close> after
  \<^verbatim>\<open>cell["outputs"]\<close> was assigned the list \<open>r\<close>, or an exception), \<open>None\<close> when the loop goes
  on to the next message. \<^verbatim>\<open>msg['msg_type']\<close> and \<^verbatim>\<open>msg['parent_header']['msg_id']\<close> are read
  before anything is compared. \<^verbatim>\<open>nbformat.v4.nbbase.output_from_msg\<close> is a parameter.
\<close>

definition handle_message ::
  "(json \<Rightarrow> string) \<Rightarrow> (json \<Rightarrow> json outcome) \<Rightarrow> string \<Rightarrow> frame \<Rightarrow> (error + json list) option" where
  "handle_message py_str output_from_msg msg_id fr =
     (case fr of
        Inl x \<Rightarrow> Some (Inl (Upstream x))
      | Inr msg \<Rightarrow>
         (case subscript msg ''msg_type'' of
            Inl e \<Rightarrow> Some (Inl e)
          | Inr msg_type \<Rightarrow>
             (case then_do (subscript msg ''parent_header'') (\<lambda>ph. subscript ph ''msg_id'') of
                Inl e \<Rightarrow> Some (Inl e)
              | Inr parent_msg_id \<Rightarrow>
                 if parent_msg_id = JStr msg_id then
                   if msg_type = JStr ''error'' then
                     Some (Inl (AnalyzerError
                       (''ERROR - Something went wrong during the code processing. Remote kernel returns: ''
                          @ py_str msg)))
                   else if msg_type = JStr ''execute_reply'' then Some (Inr [])
                   else if msg_type = JStr ''stream'' then
                     Some (then_do (upstream (output_from_msg msg)) (\<lambda>out. Inr [out]))
                   else if msg_type = JStr ''display_data'' then
                     Some (then_do (upstream (output_from_msg msg)) (\<lambda>out. Inr [out]))
                   else None
                 else None)))"

text \<open>
  The loop itself, over the frames the websocket will deliver: the result, the frames read
  and the frames left unread. When the peer has closed the connection \<^verbatim>\<open>read_message\<close>
  returns \<^verbatim>\<open>None\<close> and \<^verbatim>\<open>json_decode(None)\<close> raises a \<^verbatim>\<open>TypeError\<close>.
\<close>

fun await_reply ::
  "(json \<Rightarrow> string) \<Rightarrow> (json \<Rightarrow> json outcome) \<Rightarrow> string \<Rightarrow> frame list
     \<Rightarrow> (error + json list) \<times> frame list \<times> frame list" where
  "await_reply py_str output_from_msg msg_id [] = (Inl TypeError, [], [])"
| "await_reply py_str output_from_msg msg_id (fr # frs) =
     (case handle_message py_str output_from_msg msg_id fr of
        Some r \<Rightarrow> (r, [fr], frs)
      | None \<Rightarrow>
         (case await_reply py_str output_from_msg msg_id frs of
            (r, seen, unread) \<Rightarrow> (r, fr # seen, unread)))"

section \<open>Starting and stopping a server of the hub\<close>

text \<open>
  \<^verbatim>\<open>event_stream\<close> (lines 156 to 167): the lines of the progress stream that start with
  \<^verbatim>\<open>data:\<close> are decoded by \<^verbatim>\<open>json.loads\<close> (a parameter), each when the consumer asks for it;
  the text after the first colon is what is decoded. The other lines are skipped. When
  \<^verbatim>\<open>requests.get\<close> itself raises, the first read raises.
\<close>

definition event_stream :: "(string \<Rightarrow> json outcome) \<Rightarrow> string list outcome \<Rightarrow> frame list" where
  "event_stream loads r =
     (case r of
        Inl x \<Rightarrow> [Inl x]
      | Inr lines \<Rightarrow> map (\<lambda>line. loads (drop 5 line)) (filter (prefix ''data:'') lines))"

text \<open>
  The \<^verbatim>\<open>for event in ...\<close> loop of \<^verbatim>\<open>start_server\<close> (lines 190 to 193): \<open>Some\<close> when the loop
  is left by \<^verbatim>\<open>break\<close> with \<^verbatim>\<open>event['url']\<close> or by an exception, \<open>None\<close> when the stream is
  exhausted; with the events left unread.
\<close>

fun first_ready :: "frame list \<Rightarrow> (error + json) option \<times> frame list" where
  "first_ready [] = (None, [])"
| "first_ready (Inl x # evs) = (Some (Inl (Upstream x)), evs)"
| "first_ready (Inr event # evs) =
     (case py_get event ''ready'' JNull of
        Inl e \<Rightarrow> (Some (Inl e), evs)
      | Inr ready \<Rightarrow>
          if truthy ready then (Some (subscript event ''url''), evs)
          else first_ready evs)"

text \<open>
  Lines 190 to 200: the loop, its \<^verbatim>\<open>else\<close> branch and the \<^verbatim>\<open>return\<close>, with the events
  left unread.
\<close>

definition wait_until_ready ::
  "(json \<Rightarrow> string) \<Rightarrow> string \<Rightarrow> string \<Rightarrow> frame list \<Rightarrow> (error + string) \<times> frame list" where
  "wait_until_ready py_str hub_url log_name evs =
     (case first_ready evs of
        (None, unread) \<Rightarrow> (Inl (ValueError (log_name @ '' never started!'')), unread)
      | (Some (Inl e), unread) \<Rightarrow> (Inl e, unread)
      | (Some (Inr server_url), unread) \<Rightarrow> (Inr (hub_url @ format_value py_str server_url), unread))"

text \<open>
  What the hub does during one call of \<^verbatim>\<open>start_server\<close>: its reply to the first
  \<^verbatim>\<open>GET\<close> of the user, whether the \<^verbatim>\<open>POST\<close> that requests the launch raises, its reply to the
  second \<^verbatim>\<open>GET\<close>, and the progress stream found at a URL.
\<close>

record hub =
  user_model_first :: "json outcome"
  launch :: "string option"
  user_model_second :: "json outcome"
  progress_lines :: "string \<Rightarrow> string list outcome"

definition start_server ::
  "(json \<Rightarrow> string) \<Rightarrow> (string \<Rightarrow> json outcome) \<Rightarrow> hub \<Rightarrow> string \<Rightarrow> string \<Rightarrow> string
     \<Rightarrow> error + string" where
  "start_server py_str loads h hub_url user server_name =
     (let log_name = rstrip_slash (user @ ''/'' @ server_name) in
      then_do (upstream (user_model_first h)) (\<lambda>user_model.
      then_do (py_get user_model ''servers'' (JObj [])) (\<lambda>servers.
      then_do (py_in server_name servers) (\<lambda>active.
      then_do (if active then Inr user_model
               else (case launch h of
                       Some x \<Rightarrow> Inl (Upstream x)
                     | None \<Rightarrow> upstream (user_model_second h))) (\<lambda>user_model.
      then_do (subscript user_model ''servers'') (\<lambda>servers.
      then_do (subscript servers server_name) (\<lambda>entry.
      then_do (subscript entry ''progress_url'') (\<lambda>progress_url.
        fst (wait_until_ready py_str hub_url log_name
               (event_stream loads
                  (progress_lines h (hub_url @ format_value py_str progress_url))))))))))))"



section \<open>The analyzer and its two endpoint configurations\<close>

text \<open>
  \<^verbatim>\<open>papermill_io.get_handler\<close> resolves a hostname to the class that reads and writes it; the
  source only asks whether that class is \<^verbatim>\<open>HttpHandler\<close>.
\<close>

datatype handler = HttpHandler | OtherHandler

text \<open>
  The dictionary \<^verbatim>\<open>initialize_path\<close> returns. The entries that the function always fills
  before it returns are plain fields; \<^verbatim>\<open>server\<close> stays \<^verbatim>\<open>None\<close> unless the endpoint is a hub.
\<close>

record configuration =
  hostname :: string
  handler_type :: handler
  handler_http_service_api_token :: string
  handler_http_is_jupyterhub :: bool
  handler_http_headers :: "(string \<times> string) list"
  handler_http_user :: string
  server :: "string option"
  server_uri_http_api_contents :: string
  server_uri_http_api_kernels :: string
  server_uri_ws_api_kernels :: string

text \<open>
  The parameters of the job as \<^verbatim>\<open>getParam\<close> finds them (\<open>None\<close> when a parameter is absent
  or null), the observable's type and the decoded job (\<^verbatim>\<open>self._input\<close>).
\<close>

record settings =
  config_input_hostname :: "string option"
  config_input_handler_http_service_api_token :: "string option"
  config_input_handler_http_is_jupyterhub :: "bool option"
  config_input_paths :: "string list option"
  config_input_handler_http_execute_remotely :: "bool option"
  config_output_hostname :: "string option"
  config_output_handler_http_service_api_token :: "string option"
  config_output_handler_http_is_jupyterhub :: "bool option"
  config_output_folder :: "string option"
  config_any_only_html :: "bool option"
  config_any_handler_http_user :: "string option"
  param_data :: "string option"
  param_data_type :: string
  job :: json

text \<open>The attributes of the \<^verbatim>\<open>Jupyter\<close> object that \<^verbatim>\<open>__init__\<close> sets.\<close>

record analyzer =
  input_configuration :: "configuration option"
  input_paths :: "string list"
  input_execute_remotely :: bool
  output_configuration :: "configuration option"
  output_folder :: string
  any_only_html :: bool
  params :: settings

text \<open>
  The collaborators: Python's \<^verbatim>\<open>str\<close> and \<^verbatim>\<open>json.loads\<close>, papermill's handler lookup, the
  hub as each of the two calls of \<^verbatim>\<open>start_server\<close> meets it, nbformat's
  \<^verbatim>\<open>output_from_msg\<close>, the identifiers \<^verbatim>\<open>uuid4().hex\<close> yields one after the other, tornado's
  \<^verbatim>\<open>url_escape\<close>, the \<^verbatim>\<open>POST\<close> that creates a kernel (its decoded reply), the websocket
  connection (the frames the kernel will send on it), papermill's loader, parameterizer,
  writer and local executor, the date as \<^verbatim>\<open>str(datetime.date.today())\<close>, the rounded
  duration measured around a notebook's cells, \<^verbatim>\<open>round(..., 3)\<close> and nbconvert's exporter.
\<close>

record env =
  py_str :: "json \<Rightarrow> string"
  json_loads :: "string \<Rightarrow> json outcome"
  get_handler :: "string \<Rightarrow> handler"
  input_hub :: hub
  output_hub :: hub
  output_from_msg :: "json \<Rightarrow> json outcome"
  uuid4_hex :: "nat \<Rightarrow> string"
  url_escape :: "string \<Rightarrow> string"
  fetch_kernel :: "string \<Rightarrow> json outcome"
  websocket_connect :: "string \<Rightarrow> frame list outcome"
  load_notebook_node :: "string \<Rightarrow> json outcome"
  parameterize_notebook :: "json \<Rightarrow> json \<Rightarrow> json outcome"
  write_ipynb :: "json \<Rightarrow> string \<Rightarrow> string option"
  today :: string
  timer :: "string \<Rightarrow> json"
  execute_notebook :: "string \<Rightarrow> string \<Rightarrow> json \<Rightarrow> json outcome"
  round3 :: "json \<Rightarrow> json outcome"
  from_notebook_node :: "json \<Rightarrow> json outcome"

text \<open>
  \<^verbatim>\<open>self.getParam(name, default, message)\<close> as the source calls it, always with a message:
  the value of the parameter, and \<^verbatim>\<open>self.error(message)\<close> when there is none. With a
  message the default is never returned, so it is no argument here.
\<close>

definition getParam :: "'a option \<Rightarrow> string \<Rightarrow> error + 'a" where
  "getParam v message = (case v of None \<Rightarrow> Inl (AnalyzerError message) | Some x \<Rightarrow> Inr x)"

text \<open>
  \<^verbatim>\<open>initialize_path\<close> (lines 47 to 93). Only the branch for \<^verbatim>\<open>HttpHandler\<close> has a
  \<^verbatim>\<open>return\<close>: for any other handler the function ends without one and yields \<^verbatim>\<open>None\<close>.
\<close>

definition initialize_path ::
  "env \<Rightarrow> settings \<Rightarrow> hub \<Rightarrow> string \<Rightarrow> string option \<Rightarrow> bool \<Rightarrow> error + configuration option" where
  "initialize_path ev cfg h host api_token is_jupyterhub =
     (if get_handler ev host = HttpHandler then
        then_do (case api_token of
                   Some t \<Rightarrow>
                     if t \<noteq> [] then Inr t
                     else Inl (AnalyzerError
                       ''[ERROR] You are using an HTTP handler but none service API token for input notebook was provided.'')
                 | None \<Rightarrow>
                     Inl (AnalyzerError
                       ''[ERROR] You are using an HTTP handler but none service API token for input notebook was provided.''))
          (\<lambda>t.
        then_do (getParam (config_any_handler_http_user cfg)
                   ''[HTTP Handler only] Service name parameter is missing.'') (\<lambda>user.
        then_do (if user \<noteq> [] then Inr user
                 else Inl (AnalyzerError
                   ''[ERROR] You are using an HTTP handler but none user was provided.'')) (\<lambda>user.
          if is_jupyterhub then
            then_do (start_server (py_str ev) (json_loads ev) h host user ''cortex_job'') (\<lambda>srv.
              Inr (Some \<lparr>hostname = host, handler_type = HttpHandler,
                         handler_http_service_api_token = t,
                         handler_http_is_jupyterhub = is_jupyterhub,
                         handler_http_headers = [(''Authorization'', ''token '' @ t)],
                         handler_http_user = user,
                         server = Some srv,
                         server_uri_http_api_contents = srv @ ''api/contents'',
                         server_uri_http_api_kernels = srv @ ''api/kernels'',
                         server_uri_ws_api_kernels =
                           py_replace ''http://'' ''ws://'' (srv @ ''api/kernels'')\<rparr>))
          else
            Inr (Some \<lparr>hostname = host, handler_type = HttpHandler,
                       handler_http_service_api_token = t,
                       handler_http_is_jupyterhub = is_jupyterhub,
                       handler_http_headers = [(''Authorization'', ''token '' @ t)],
                       handler_http_user = user,
                       server = None,
                       server_uri_http_api_contents = host @ ''api/contents'',
                       server_uri_http_api_kernels = host @ ''api/kernels'',
                       server_uri_ws_api_kernels =
                         py_replace ''http://'' ''ws://'' (host @ ''api/kernels'')\<rparr>))))
      else Inr None)"

text \<open>
  \<^verbatim>\<open>__init__\<close> (lines 22 to 44): every parameter is read with a message, so its absence
  ends the run, \<^verbatim>\<open>config.any_only_html\<close> of line 44 included (its default \<^verbatim>\<open>True\<close> comes with
  a message too); the two configurations are built on the way.
\<close>

definition init :: "env \<Rightarrow> settings \<Rightarrow> error + analyzer" where
  "init ev cfg =
     then_do (getParam (config_input_hostname cfg) ''Hostname input parameter is missing.'') (\<lambda>ih.
     then_do (getParam (config_input_handler_http_service_api_token cfg)
                ''[HTTP Handler only] Service API token for input notebook parameter is missing.'') (\<lambda>it.
     then_do (getParam (config_input_handler_http_is_jupyterhub cfg)
                ''[HTTP Handler only] JupyterHub for input notebook boolean parameter is missing.'') (\<lambda>ij.
     then_do (initialize_path ev cfg (input_hub ev) ih (Some it) ij) (\<lambda>ic.
     then_do (getParam (config_input_paths cfg)
                ''You must provide the list of paths of the notebooks you want to run.'') (\<lambda>paths.
     then_do (getParam (config_input_handler_http_execute_remotely cfg)
                ''You must specify if you want to run your code locally or remotely'') (\<lambda>remotely.
     then_do (getParam (config_output_hostname cfg) ''Hostname output parameter is missing.'') (\<lambda>oh.
     then_do (getParam (config_output_handler_http_service_api_token cfg)
                ''[HTTP Handler only] Service API token for output notebook parameter is missing.'') (\<lambda>ot.
     then_do (getParam (config_output_handler_http_is_jupyterhub cfg)
                ''[HTTP Handler only] JupyterHub for output notebook boolean parameter is missing.'') (\<lambda>oj.
     then_do (initialize_path ev cfg (output_hub ev) oh (Some ot) oj) (\<lambda>oc.
     then_do (getParam (config_output_folder cfg)
                ''You must provide an output folder path in which executed notebooks will be stored'') (\<lambda>folder.
     then_do (getParam (config_any_only_html cfg)
                ''You must identify if you want to HTML response only for long reports'') (\<lambda>only_html.
       Inr \<lparr>input_configuration = ic, input_paths = paths, input_execute_remotely = remotely,
            output_configuration = oc, output_folder = folder,
            any_only_html = only_html,
            params = cfg\<rparr>))))))))))))"

text \<open>
  \<^verbatim>\<open>get_conf\<close> (lines 95 to 110). The name of the entry is the field read. Subscripting the
  \<^verbatim>\<open>None\<close> that \<^verbatim>\<open>initialize_path\<close> left for an endpoint raises a \<^verbatim>\<open>TypeError\<close>; for a
  \<^verbatim>\<open>type\<close> other than the two the function returns \<^verbatim>\<open>None\<close>.
\<close>

definition get_conf :: "analyzer \<Rightarrow> string \<Rightarrow> (configuration \<Rightarrow> 'a) \<Rightarrow> error + 'a option" where
  "get_conf self ty name =
     (if ty = ''input'' then
        (case input_configuration self of None \<Rightarrow> Inl TypeError | Some c \<Rightarrow> Inr (Some (name c)))
      else if ty = ''output'' then
        (case output_configuration self of None \<Rightarrow> Inl TypeError | Some c \<Rightarrow> Inr (Some (name c)))
      else Inr None)"

text \<open>An entry used as an operand of \<^verbatim>\<open>+\<close> on strings: \<^verbatim>\<open>None\<close> there raises a \<^verbatim>\<open>TypeError\<close>.\<close>

definition conf_str :: "analyzer \<Rightarrow> string \<Rightarrow> (configuration \<Rightarrow> string) \<Rightarrow> error + string" where
  "conf_str self ty name =
     then_do (get_conf self ty name) (\<lambda>v. case v of None \<Rightarrow> Inl TypeError | Some s \<Rightarrow> Inr s)"

text \<open>\<^verbatim>\<open>self.get_conf(ty, "handler_type") is HttpHandler\<close>.\<close>

definition is_http :: "analyzer \<Rightarrow> string \<Rightarrow> error + bool" where
  "is_http self ty = then_do (get_conf self ty handler_type) (\<lambda>v. Inr (v = Some HttpHandler))"


section \<open>The remote run\<close>

text \<open>
  What \<^verbatim>\<open>execute_notebook_remotely\<close> does to the outside, in the order it does it: the
  request that creates the kernel, the websocket opened, a notebook loaded, an execute
  request written (its \<^verbatim>\<open>msg_id\<close> and its \<^verbatim>\<open>code\<close>), a frame read, a notebook written, the
  websocket closed. The session holds the frames still to come, the number of identifiers
  drawn so far and this record.
\<close>

datatype event =
    StartKernel string
  | Connect string
  | Load string
  | Send string json
  | Recv frame
  | Write string
  | Close

record session =
  inbox :: "frame list"
  issued :: nat
  trace :: "event list"

text \<open>The \<^verbatim>\<open>parameters\<close> dictionary of lines 267 to 270 and 418 to 421.\<close>

definition notebook_parameters :: "env \<Rightarrow> analyzer \<Rightarrow> error + json" where
  "notebook_parameters ev self =
     then_do (subscript (job (params self)) ''parameters'') (\<lambda>p.
     then_do (subscript p ''organisation'') (\<lambda>organisation.
     then_do (subscript (job (params self)) ''parameters'') (\<lambda>p.
     then_do (subscript p ''user'') (\<lambda>user.
     then_do (getParam (param_data (params self)) ''Data is missing'') (\<lambda>d.
       Inr (JObj [(''thehive_organisation'', JStr (format_value (py_str ev) organisation)),
                  (''thehive_user'', JStr (format_value (py_str ev) user)),
                  (''thehive_observable_type'', JStr (param_data_type (params self))),
                  (''thehive_observable_value'', JStr d)]))))))"

text \<open>
  One round of the loop over the cells (lines 277 to 339): the cell as the round leaves
  it. A cell whose type is not \<^verbatim>\<open>"code"\<close> is left alone. For a code cell an identifier is
  drawn, the request is written and the reply awaited; the frames read on the way are
  recorded after the request.
\<close>

definition run_cell :: "env \<Rightarrow> json \<Rightarrow> session \<Rightarrow> (error + json) \<times> session" where
  "run_cell ev cell ws =
     (case subscript cell ''cell_type'' of
        Inl e \<Rightarrow> (Inl e, ws)
      | Inr cell_type \<Rightarrow>
          if cell_type = JStr ''code'' then
            (let msg_id = uuid4_hex ev (issued ws);
                 ws1 = ws\<lparr>issued := issued ws + 1\<rparr>
             in case subscript cell ''source'' of
                  Inl e \<Rightarrow> (Inl e, ws1)
                | Inr code \<Rightarrow>
                   (case await_reply (py_str ev) (output_from_msg ev) msg_id (inbox ws1) of
                      (r, seen, unread) \<Rightarrow>
                        (then_do r (\<lambda>outputs. set_item cell ''outputs'' (JArr outputs)),
                         ws1\<lparr>inbox := unread,
                             trace := trace ws1 @ Send msg_id code # map Recv seen\<rparr>)))
          else (Inr cell, ws))"

fun run_cells :: "env \<Rightarrow> json list \<Rightarrow> session \<Rightarrow> (error + json list) \<times> session" where
  "run_cells ev [] ws = (Inr [], ws)"
| "run_cells ev (cell # cells) ws =
     (case run_cell ev cell ws of
        (Inl e, ws1) \<Rightarrow> (Inl e, ws1)
      | (Inr cell', ws1) \<Rightarrow>
         (case run_cells ev cells ws1 of
            (Inl e, ws2) \<Rightarrow> (Inl e, ws2)
          | (Inr cells', ws2) \<Rightarrow> (Inr (cell' # cells'), ws2)))"

text \<open>
  \<^verbatim>\<open>iter(nb_output['cells'])\<close>: the cells of a list. An empty dictionary or string yields
  nothing; a non-empty one yields strings, and the first of them fails the read of
  \<^verbatim>\<open>cell["cell_type"]\<close> with the \<^verbatim>\<open>TypeError\<close> given here; the other values cannot be
  iterated.
\<close>

fun iter_cells :: "json \<Rightarrow> error + json list" where
  "iter_cells (JArr cells) = Inr cells"
| "iter_cells (JObj []) = Inr []"
| "iter_cells (JStr []) = Inr []"
| "iter_cells _ = Inl TypeError"

text \<open>The cells are changed in place: the notebook sees them through its \<^verbatim>\<open>cells\<close> list.\<close>

definition with_cells :: "json \<Rightarrow> json list \<Rightarrow> error + json" where
  "with_cells nb cells =
     then_do (subscript nb ''cells'') (\<lambda>old.
       case old of JArr _ \<Rightarrow> set_item nb ''cells'' (JArr cells) | _ \<Rightarrow> Inr nb)"

text \<open>
  The output location, computed alike at lines 346 to 351 and 397 to 402: the path the
  notebook is written to and the path reported. \<^verbatim>\<open>path[1:]\<close> is the path without its first
  character.
\<close>

definition output_path_pair :: "env \<Rightarrow> analyzer \<Rightarrow> string \<Rightarrow> error + string \<times> string" where
  "output_path_pair ev self path =
     then_do (is_http self ''output'') (\<lambda>http.
       if http then
         then_do (conf_str self ''output'' server_uri_http_api_contents) (\<lambda>contents.
         then_do (getParam (param_data (params self)) ''Data is missing'') (\<lambda>d.
         then_do (conf_str self ''output'' handler_http_service_api_token) (\<lambda>api_token.
         then_do (conf_str self ''output'' hostname) (\<lambda>host.
         then_do (conf_str self ''input'' handler_http_user) (\<lambda>user.
         then_do (getParam (param_data (params self)) ''Data is missing'') (\<lambda>d'.
           Inr (contents @ output_folder self @ today ev @ ''-'' @ d @ ''-'' @ drop 1 path
                  @ ''?token='' @ api_token,
                host @ ''/user/'' @ user @ ''/tree'' @ output_folder self @ today ev @ ''-'' @ d'
                  @ ''-'' @ drop 1 path)))))))
       else
         then_do (conf_str self ''output'' hostname) (\<lambda>host.
         then_do (getParam (param_data (params self)) ''Data is missing'') (\<lambda>d.
           Inr (host @ output_folder self @ today ev @ ''-'' @ d @ ''-'' @ drop 1 path,
                host @ output_folder self @ today ev @ ''-'' @ d @ ''-'' @ drop 1 path))))"

text \<open>One round of the loop over the paths (lines 261 to 363): the notebook appended.\<close>

definition run_notebook :: "env \<Rightarrow> analyzer \<Rightarrow> string \<Rightarrow> session \<Rightarrow> (error + json) \<times> session" where
  "run_notebook ev self path ws =
     (case then_do (conf_str self ''input'' server_uri_http_api_contents) (\<lambda>contents.
           then_do (conf_str self ''input'' handler_http_service_api_token) (\<lambda>api_token.
             Inr (contents @ ''/'' @ path @ ''?token='' @ api_token))) of
        Inl e \<Rightarrow> (Inl e, ws)
      | Inr url \<Rightarrow>
         (let ws1 = ws\<lparr>trace := trace ws @ [Load url]\<rparr> in
          case then_do (upstream (load_notebook_node ev url)) (\<lambda>nb_input.
               then_do (notebook_parameters ev self) (\<lambda>parameters.
               then_do (upstream (parameterize_notebook ev nb_input parameters)) (\<lambda>nb_output.
               then_do (subscript nb_output ''cells'') (\<lambda>cells.
               then_do (iter_cells cells) (\<lambda>cells. Inr (nb_output, cells)))))) of
            Inl e \<Rightarrow> (Inl e, ws1)
          | Inr (nb_output, cells) \<Rightarrow>
             (case run_cells ev cells ws1 of
                (Inl e, ws2) \<Rightarrow> (Inl e, ws2)
              | (Inr cells', ws2) \<Rightarrow>
                 (case then_do (with_cells nb_output cells') (\<lambda>nb.
                       then_do (output_path_pair ev self path) (\<lambda>(output_path, output_path_direct).
                         Inr (nb, output_path, output_path_direct))) of
                    Inl e \<Rightarrow> (Inl e, ws2)
                  | Inr (nb, output_path, output_path_direct) \<Rightarrow>
                     (let ws3 = ws2\<lparr>trace := trace ws2 @ [Write output_path]\<rparr> in
                      case write_ipynb ev nb output_path of
                        Some x \<Rightarrow> (Inl (Upstream x), ws3)
                      | None \<Rightarrow>
                         (then_do (set_item nb ''duration'' (timer ev path)) (\<lambda>nb.
                          then_do (set_item nb ''output_notebook'' (JStr output_path_direct)) (\<lambda>nb.
                            set_item nb ''name'' (JStr path))),
                          ws3))))))"

fun run_notebooks ::
  "env \<Rightarrow> analyzer \<Rightarrow> string list \<Rightarrow> session \<Rightarrow> (error + json list) \<times> session" where
  "run_notebooks ev self [] ws = (Inr [], ws)"
| "run_notebooks ev self (path # paths) ws =
     (case run_notebook ev self path ws of
        (Inl e, ws1) \<Rightarrow> (Inl e, ws1)
      | (Inr nb, ws1) \<Rightarrow>
         (case run_notebooks ev self paths ws1 of
            (Inl e, ws2) \<Rightarrow> (Inl e, ws2)
          | (Inr nbs, ws2) \<Rightarrow> (Inr (nb # nbs), ws2)))"

text \<open>
  \<^verbatim>\<open>execute_notebook_remotely\<close> (lines 227 to 368): the kernel is created, the websocket
  opened, the notebooks run, and \<^verbatim>\<open>ws.close()\<close> is the statement after the loop. The source
  has no \<^verbatim>\<open>try\<close>: an exception leaves the function where it is raised.
\<close>

definition kernel_channel_url :: "env \<Rightarrow> analyzer \<Rightarrow> json \<Rightarrow> error + string" where
  "kernel_channel_url ev self body =
     then_do (subscript body ''id'') (\<lambda>kernel_id.
     then_do (conf_str self ''input'' server_uri_ws_api_kernels) (\<lambda>ws_uri.
     then_do (case kernel_id of JStr k \<Rightarrow> Inr (url_escape ev k) | _ \<Rightarrow> Inl TypeError) (\<lambda>escaped.
     then_do (get_conf self ''input'' handler_http_headers) (\<lambda>_.
       Inr (ws_uri @ ''/'' @ escaped @ ''/channels'')))))"

definition execute_notebook_remotely :: "env \<Rightarrow> analyzer \<Rightarrow> (error + json list) \<times> event list" where
  "execute_notebook_remotely ev self =
     (case then_do (conf_str self ''input'' server_uri_http_api_kernels) (\<lambda>kernels.
           then_do (get_conf self ''input'' handler_http_headers) (\<lambda>_. Inr kernels)) of
        Inl e \<Rightarrow> (Inl e, [])
      | Inr kernels \<Rightarrow>
         (case then_do (upstream (fetch_kernel ev kernels)) (kernel_channel_url ev self) of
            Inl e \<Rightarrow> (Inl e, [StartKernel kernels])
          | Inr url \<Rightarrow>
             (case websocket_connect ev url of
                Inl x \<Rightarrow> (Inl (Upstream x), [StartKernel kernels])
              | Inr frames \<Rightarrow>
                 (case run_notebooks ev self (input_paths self)
                         \<lparr>inbox = frames, issued = 0, trace = [StartKernel kernels, Connect url]\<rparr> of
                    (Inl e, ws) \<Rightarrow> (Inl e, trace ws)
                  | (Inr results, ws) \<Rightarrow> (Inr results, trace ws @ [Close])))))"

section \<open>The run\<close>

text \<open>
  The test of lines 381 and 408: \<^verbatim>\<open>self.input_execute_remotely is True and
  self.get_conf("input","handler_type") is HttpHandler\<close>. Python evaluates the right operand
  of \<^verbatim>\<open>and\<close> only when the left one holds.
\<close>

definition execute_remotely :: "analyzer \<Rightarrow> error + bool" where
  "execute_remotely self = (if input_execute_remotely self then is_http self ''input'' else Inr False)"

text \<open>The input path of the local branch (lines 391 to 394).\<close>

definition input_notebook_path :: "analyzer \<Rightarrow> string \<Rightarrow> error + string" where
  "input_notebook_path self path =
     then_do (is_http self ''input'') (\<lambda>http.
       if http then
         then_do (conf_str self ''input'' server_uri_http_api_contents) (\<lambda>contents.
         then_do (conf_str self ''input'' handler_http_service_api_token) (\<lambda>api_token.
           Inr (contents @ ''/'' @ path @ ''?token='' @ api_token)))
       else then_do (conf_str self ''input'' hostname) (\<lambda>host. Inr (host @ path)))"

text \<open>
  One of the two statements under \<^verbatim>\<open># Sanitize secrets\<close> (lines 427 and 428), for the entry
  \<open>key\<close> of \<^verbatim>\<open>nb_output["metadata"]["papermill"]\<close>: the text removed is \<^verbatim>\<open>"?token="\<close> followed
  by the token of the output configuration, for both entries. Only a string has a
  \<^verbatim>\<open>replace\<close> method.
\<close>

definition sanitize_secret :: "analyzer \<Rightarrow> string \<Rightarrow> json \<Rightarrow> error + json" where
  "sanitize_secret self key nb =
     then_do (subscript nb ''metadata'') (\<lambda>metadata.
     then_do (subscript metadata ''papermill'') (\<lambda>papermill.
     then_do (subscript papermill key) (\<lambda>recorded.
     then_do (case recorded of JStr s \<Rightarrow> Inr s | _ \<Rightarrow> Inl AttributeError) (\<lambda>s.
     then_do (conf_str self ''output'' handler_http_service_api_token) (\<lambda>api_token.
     then_do (set_item papermill key (JStr (py_replace (''?token='' @ api_token) [] s))) (\<lambda>papermill.
     then_do (set_item metadata ''papermill'' papermill) (\<lambda>metadata.
       set_item nb ''metadata'' metadata)))))))"

text \<open>
  One round of the local loop (lines 389 to 440): the value appended to \<^verbatim>\<open>results\<close>. The
  round repeats the test of line 381; in its first branch \<^verbatim>\<open>nb_output\<close> stays \<^verbatim>\<open>None\<close>.
\<close>

definition run_locally :: "env \<Rightarrow> analyzer \<Rightarrow> string \<Rightarrow> error + json" where
  "run_locally ev self path =
     then_do (input_notebook_path self path) (\<lambda>input_notebook.
     then_do (output_path_pair ev self path) (\<lambda>(output_notebook, output_notebook_direct).
     then_do (execute_remotely self) (\<lambda>remotely.
       if remotely then
         then_do (fst (execute_notebook_remotely ev self)) (\<lambda>_. Inr JNull)
       else
         then_do (notebook_parameters ev self) (\<lambda>parameters.
         then_do (upstream (execute_notebook ev input_notebook output_notebook parameters)) (\<lambda>nb.
         then_do (sanitize_secret self ''input_path'' nb) (\<lambda>nb.
         then_do (sanitize_secret self ''output_path'' nb) (\<lambda>nb.
         then_do (subscript nb ''metadata'') (\<lambda>metadata.
         then_do (subscript metadata ''papermill'') (\<lambda>papermill.
         then_do (subscript papermill ''duration'') (\<lambda>duration.
         then_do (upstream (round3 ev duration)) (\<lambda>rounded.
         then_do (set_item nb ''duration'' rounded) (\<lambda>nb.
         then_do (set_item nb ''output_notebook'' (JStr output_notebook_direct)) (\<lambda>nb.
           set_item nb ''name'' (JStr path))))))))))))))"

fun run_all_locally :: "env \<Rightarrow> analyzer \<Rightarrow> string list \<Rightarrow> error + json list" where
  "run_all_locally ev self [] = Inr []"
| "run_all_locally ev self (path # paths) =
     then_do (run_locally ev self path) (\<lambda>nb.
     then_do (run_all_locally ev self paths) (\<lambda>nbs. Inr (nb # nbs)))"

text \<open>The conversion of one result (lines 444 to 452).\<close>

definition convert :: "env \<Rightarrow> analyzer \<Rightarrow> json \<Rightarrow> error + json" where
  "convert ev self nb =
     then_do (upstream (from_notebook_node ev nb)) (\<lambda>body.
       if \<not> any_only_html self then set_item nb ''html'' body
       else
         then_do (subscript nb ''name'') (\<lambda>name.
         then_do (subscript nb ''duration'') (\<lambda>duration.
         then_do (subscript nb ''output_notebook'') (\<lambda>output_notebook.
           Inr (JObj [(''name'', name), (''duration'', duration),
                      (''output_notebook'', output_notebook), (''html'', body)])))))"

fun convert_all :: "env \<Rightarrow> analyzer \<Rightarrow> json list \<Rightarrow> error + json list" where
  "convert_all ev self [] = Inr []"
| "convert_all ev self (nb # nbs) =
     then_do (convert ev self nb) (\<lambda>c.
     then_do (convert_all ev self nbs) (\<lambda>cs. Inr (c # cs)))"

text \<open>\<^verbatim>\<open>run\<close> (lines 370 to 456): the report.\<close>

definition run :: "env \<Rightarrow> analyzer \<Rightarrow> error + json" where
  "run ev self =
     then_do (execute_remotely self) (\<lambda>remotely.
     then_do (if remotely then fst (execute_notebook_remotely ev self)
              else run_all_locally ev self (input_paths self)) (\<lambda>results.
     then_do (convert_all ev self results) (\<lambda>results_converted.
       Inr (JObj [(''notebooks'', JArr results_converted)]))))"

section \<open>Notions used in the statements\<close>

text \<open>
  The entry \<open>k\<close> of a value, when the value is a dictionary that has it; the
  \<^verbatim>\<open>parent_header.msg_id\<close> of a message.
\<close>

definition field :: "json \<Rightarrow> string \<Rightarrow> json option" where
  "field v k = (case v of JObj kvs \<Rightarrow> map_of kvs k | _ \<Rightarrow> None)"

definition parent_id :: "json \<Rightarrow> json option" where
  "parent_id msg = (case field msg ''parent_header'' of None \<Rightarrow> None | Some ph \<Rightarrow> field ph ''msg_id'')"

text \<open>
  A message of another request: it has a \<^verbatim>\<open>msg_type\<close> and a \<^verbatim>\<open>parent_header.msg_id\<close>, and
  that identifier is not the one awaited.
\<close>

definition foreign :: "string \<Rightarrow> json \<Rightarrow> bool" where
  "foreign msg_id msg =
     (field msg ''msg_type'' \<noteq> None \<and> parent_id msg \<noteq> None \<and> parent_id msg \<noteq> Some (JStr msg_id))"

text \<open>The four message types that end the wait for a reply.\<close>

definition terminal_type :: "json \<Rightarrow> bool" where
  "terminal_type t =
     (t = JStr ''error'' \<or> t = JStr ''execute_reply'' \<or> t = JStr ''stream'' \<or> t = JStr ''display_data'')"

text \<open>
  A message the loop passes over: one of another request, or one of this request whose
  type is none of the four.
\<close>

definition ignored :: "string \<Rightarrow> json \<Rightarrow> bool" where
  "ignored msg_id msg =
     (foreign msg_id msg \<or>
      (parent_id msg = Some (JStr msg_id) \<and>
       (case field msg ''msg_type'' of None \<Rightarrow> False | Some t \<Rightarrow> \<not> terminal_type t)))"

text \<open>
  A progress event with a true \<^verbatim>\<open>ready\<close> entry; a frame that is a progress event (a
  dictionary) without one.
\<close>

definition announces_ready :: "json \<Rightarrow> bool" where
  "announces_ready event = (case field event ''ready'' of None \<Rightarrow> False | Some r \<Rightarrow> truthy r)"

definition still_starting :: "frame \<Rightarrow> bool" where
  "still_starting fr =
     (case fr of Inr (JObj kvs) \<Rightarrow> \<not> announces_ready (JObj kvs) | _ \<Rightarrow> False)"





text \<open>The entry \<open>key\<close> of \<^verbatim>\<open>nb["metadata"]["papermill"]\<close>.\<close>

definition recorded :: "string \<Rightarrow> json \<Rightarrow> error + json" where
  "recorded key nb =
     then_do (subscript nb ''metadata'') (\<lambda>metadata.
     then_do (subscript metadata ''papermill'') (\<lambda>papermill. subscript papermill key))"

text \<open>
  A code cell; what a list of cells asks to execute, in order (the \<^verbatim>\<open>source\<close> of each code
  cell); the execute requests of a record of events.
\<close>

definition is_code :: "json \<Rightarrow> bool" where
  "is_code cell = (field cell ''cell_type'' = Some (JStr ''code''))"

definition code_sources :: "json list \<Rightarrow> json option list" where
  "code_sources cells = map (\<lambda>cell. field cell ''source'') (filter is_code cells)"

fun submitted :: "event list \<Rightarrow> json list" where
  "submitted [] = []"
| "submitted (Send msg_id code # evs) = code # submitted evs"
| "submitted (_ # evs) = submitted evs"

text \<open>
  A cell after the run, next to the cell before: a cell that is not a code cell is the
  same, a code cell is the same but for its \<^verbatim>\<open>outputs\<close> entry.
\<close>

definition passed :: "json \<Rightarrow> json \<Rightarrow> bool" where
  "passed cell cell' =
     (if is_code cell then set_item cell' ''outputs'' JNull = set_item cell ''outputs'' JNull
      else cell' = cell)"

text \<open>
  A frame that ends the wait for the request \<open>msg_id\<close>: a message for it of one of the four
  types. A record of events is sequential when every execute request in it is written
  while no earlier request is still waiting for such a frame; \<open>waiting\<close> follows the request
  that is waiting.
\<close>

definition answers :: "string \<Rightarrow> frame \<Rightarrow> bool" where
  "answers msg_id fr =
     (case fr of
        Inl _ \<Rightarrow> False
      | Inr msg \<Rightarrow>
          parent_id msg = Some (JStr msg_id) \<and>
          (case field msg ''msg_type'' of None \<Rightarrow> False | Some t \<Rightarrow> terminal_type t))"

fun waiting :: "string option \<Rightarrow> event list \<Rightarrow> string option" where
  "waiting w [] = w"
| "waiting w (Send msg_id code # evs) = waiting (Some msg_id) evs"
| "waiting w (Recv fr # evs) =
     waiting (case w of None \<Rightarrow> None | Some i \<Rightarrow> if answers i fr then None else Some i) evs"
| "waiting w (_ # evs) = waiting w evs"

fun sequential :: "string option \<Rightarrow> event list \<Rightarrow> bool" where
  "sequential w [] = True"
| "sequential w (Send msg_id code # evs) = (w = None \<and> sequential (Some msg_id) evs)"
| "sequential w (Recv fr # evs) =
     sequential (case w of None \<Rightarrow> None | Some i \<Rightarrow> if answers i fr then None else Some i) evs"
| "sequential w (_ # evs) = sequential w evs"

section \<open>A sample job\<close>

text \<open>
  The job of the instances below: an analyzer whose two endpoints are one Jupyter
  server reached over HTTP (not a hub), and collaborators that answer every call.
\<close>

definition demo_settings :: settings where
  "demo_settings =
     \<lparr>config_input_hostname = Some ''http://nb/'',
      config_input_handler_http_service_api_token = Some ''abcdef'',
      config_input_handler_http_is_jupyterhub = Some False,
      config_input_paths = Some [''/a.ipynb''],
      config_input_handler_http_execute_remotely = Some True,
      config_output_hostname = Some ''http://nb/'',
      config_output_handler_http_service_api_token = Some ''abc'',
      config_output_handler_http_is_jupyterhub = Some False,
      config_output_folder = Some ''/out/'',
      config_any_only_html = Some True,
      config_any_handler_http_user = Some ''u'',
      param_data = Some ''1.2.3.4'',
      param_data_type = ''ip'',
      job = JObj [(''parameters'', JObj [(''organisation'', JStr ''org''), (''user'', JStr ''me'')])]\<rparr>"

definition demo_hub :: hub where
  "demo_hub =
     \<lparr>user_model_first = Inr (JObj [(''servers'', JObj [])]),
      launch = None,
      user_model_second =
        Inr (JObj [(''servers'',
               JObj [(''cortex_job'', JObj [(''progress_url'', JStr ''/progress'')])])]),
      progress_lines = (\<lambda>_. Inr [[], ''data: ready''])\<rparr>"

definition demo_notebook :: json where
  "demo_notebook =
     JObj [(''cells'',
            JArr [JObj [(''cell_type'', JStr ''markdown''), (''source'', JStr ''# title'')],
                  JObj [(''cell_type'', JStr ''code''), (''source'', JStr ''print(1)'')]]),
           (''metadata'', JObj [])]"

text \<open>
  nbformat's \<^verbatim>\<open>output_from_msg\<close> as the sample collaborator. It reads
  \<^verbatim>\<open>msg["header"]["msg_type"]\<close> and \<^verbatim>\<open>msg["content"]\<close>, not the \<^verbatim>\<open>msg_type\<close> entry of the
  message that the loop tests, builds the output from the entries of the content that the
  type names, and raises a \<^verbatim>\<open>KeyError\<close> when an entry it reads is missing and a
  \<^verbatim>\<open>ValueError\<close> for a type that is no output. nbformat also validates the output against
  the notebook schema; the messages of the instances below carry valid entries.
\<close>

definition read_entry :: "json \<Rightarrow> string \<Rightarrow> json outcome" where
  "read_entry v k =
     (case subscript v k of
        Inl (KeyError _) \<Rightarrow> Inl ''KeyError''
      | Inl _ \<Rightarrow> Inl ''TypeError''
      | Inr x \<Rightarrow> Inr x)"

definition and_then :: "'a outcome \<Rightarrow> ('a \<Rightarrow> 'b outcome) \<Rightarrow> 'b outcome" where
  "and_then r f = (case r of Inl x \<Rightarrow> Inl x | Inr v \<Rightarrow> f v)"

definition nbbase_output_from_msg :: "json \<Rightarrow> json outcome" where
  "nbbase_output_from_msg msg =
     and_then (read_entry msg ''header'') (\<lambda>header.
     and_then (read_entry header ''msg_type'') (\<lambda>msg_type.
     and_then (read_entry msg ''content'') (\<lambda>content.
       if msg_type = JStr ''execute_result'' then
         and_then (read_entry content ''metadata'') (\<lambda>metadata.
         and_then (read_entry content ''data'') (\<lambda>data.
         and_then (read_entry content ''execution_count'') (\<lambda>execution_count.
           Inr (JObj [(''output_type'', msg_type), (''metadata'', metadata), (''data'', data),
                      (''execution_count'', execution_count)]))))
       else if msg_type = JStr ''stream'' then
         and_then (read_entry content ''name'') (\<lambda>name.
         and_then (read_entry content ''text'') (\<lambda>text.
           Inr (JObj [(''output_type'', msg_type), (''name'', name), (''text'', text)])))
       else if msg_type = JStr ''display_data'' then
         and_then (read_entry content ''metadata'') (\<lambda>metadata.
         and_then (read_entry content ''data'') (\<lambda>data.
           Inr (JObj [(''output_type'', msg_type), (''metadata'', metadata), (''data'', data)])))
       else if msg_type = JStr ''error'' then
         and_then (read_entry content ''ename'') (\<lambda>ename.
         and_then (read_entry content ''evalue'') (\<lambda>evalue.
         and_then (read_entry content ''traceback'') (\<lambda>traceback.
           Inr (JObj [(''output_type'', msg_type), (''ename'', ename), (''evalue'', evalue),
                      (''traceback'', traceback)]))))
       else Inl ''ValueError'')))"

text \<open>
  Messages of a kernel for the request \<open>i\<close>: one of type \<open>t\<close> that carries nothing else, and
  the \<^verbatim>\<open>stream\<close> message of a \<^verbatim>\<open>print(1)\<close>, with its header and its content.
\<close>

definition demo_message :: "string \<Rightarrow> string \<Rightarrow> json" where
  "demo_message t i =
     JObj [(''msg_type'', JStr t), (''parent_header'', JObj [(''msg_id'', JStr i)])]"

definition demo_stream :: "string \<Rightarrow> json" where
  "demo_stream i =
     JObj [(''header'', JObj [(''msg_type'', JStr ''stream'')]),
           (''msg_type'', JStr ''stream''),
           (''parent_header'', JObj [(''msg_id'', JStr i)]),
           (''content'', JObj [(''name'', JStr ''stdout''), (''text'', JStr ''1'')])]"

definition demo_env :: env where
  "demo_env =
     \<lparr>py_str = (\<lambda>_. ''{...}''),
      json_loads = (\<lambda>s. Inr (JObj [(''ready'', JBool True), (''url'', JStr ''/user/u/cortex_job/'')])),
      get_handler = (\<lambda>h. if prefix ''http://'' h \<or> prefix ''https://'' h then HttpHandler
                         else OtherHandler),
      input_hub = demo_hub,
      output_hub = demo_hub,
      output_from_msg = nbbase_output_from_msg,
      uuid4_hex = (\<lambda>n. replicate (Suc n) (CHR ''a'')),
      url_escape = (\<lambda>s. s),
      fetch_kernel = (\<lambda>_. Inr (JObj [(''id'', JStr ''k1'')])),
      websocket_connect = (\<lambda>_. Inr
        [Inr (demo_message ''status'' ''a''),
         Inr (demo_stream ''a''),
         Inr (demo_message ''execute_reply'' ''a'')]),
      load_notebook_node = (\<lambda>_. Inr demo_notebook),
      parameterize_notebook = (\<lambda>nb _. Inr nb),
      write_ipynb = (\<lambda>_ _. None),
      today = ''2024-01-31'',
      timer = (\<lambda>_. JNum 1),
      execute_notebook = (\<lambda>i out _. Inr
        (JObj [(''metadata'',
                JObj [(''papermill'',
                       JObj [(''input_path'', JStr i), (''output_path'', JStr out),
                             (''duration'', JNum 2)])])])),
      round3 = Inr,
      from_notebook_node = (\<lambda>_. Inr (JStr ''<html/>''))\<rparr>"

definition demo_configuration :: "string \<Rightarrow> configuration" where
  "demo_configuration api_token =
     \<lparr>hostname = ''http://nb/'', handler_type = HttpHandler,
      handler_http_service_api_token = api_token,
      handler_http_is_jupyterhub = False,
      handler_http_headers = [(''Authorization'', ''token '' @ api_token)],
      handler_http_user = ''u'',
      server = None,
      server_uri_http_api_contents = ''http://nb/api/contents'',
      server_uri_http_api_kernels = ''http://nb/api/kernels'',
      server_uri_ws_api_kernels = ''ws://nb/api/kernels''\<rparr>"

definition demo_analyzer :: analyzer where
  "demo_analyzer =
     \<lparr>input_configuration = Some (demo_configuration ''abcdef''),
      input_paths = [''/a.ipynb''],
      input_execute_remotely = True,
      output_configuration = Some (demo_configuration ''abc''),
      output_folder = ''/out/'',
      any_only_html = True,
      params = demo_settings\<rparr>"

section \<open>Reading dictionaries and configurations\<close>

lemma subscript_Some: "field v k = Some x \<Longrightarrow> subscript v k = Inr x"
  by (cases v) (simp_all add: field_def)

lemma subscript_None: "field v k = None \<Longrightarrow> subscript v k = Inl TypeError \<or> subscript v k = Inl (KeyError k)"
  by (cases v) (simp_all add: field_def)

lemma subscript_fails:
  assumes "field v k = None"
  obtains e where "subscript v k = Inl e" and "e = TypeError \<or> e = KeyError k"
  using subscript_None[OF assms] by blast

lemma subscript_InrD:
  assumes "subscript v k = Inr x"
  obtains kvs where "v = JObj kvs" and "map_of kvs k = Some x"
  using assms by (cases v) (auto split: option.splits)

lemma then_do_Inl: "then_do (Inl e) f = Inl e"
  by (simp add: then_do_def)

lemma then_do_Inr: "then_do (Inr v) f = f v"
  by (simp add: then_do_def)

lemma then_do_eq_Inr:
  "then_do r f = Inr y \<Longrightarrow> \<exists>v. r = Inr v \<and> f v = Inr y"
  by (cases r) (simp_all add: then_do_def)

lemma conf_str_output:
  "output_configuration self = Some oc \<Longrightarrow> conf_str self ''output'' name = Inr (name oc)"
  by (simp add: conf_str_def get_conf_def then_do_def)

lemma conf_str_input:
  "input_configuration self = Some ic \<Longrightarrow> conf_str self ''input'' name = Inr (name ic)"
  by (simp add: conf_str_def get_conf_def then_do_def)

lemma is_http_output:
  "output_configuration self = Some oc \<Longrightarrow> is_http self ''output'' = Inr (handler_type oc = HttpHandler)"
  by (simp add: is_http_def get_conf_def then_do_def)

lemma is_http_input:
  "input_configuration self = Some ic \<Longrightarrow> is_http self ''input'' = Inr (handler_type ic = HttpHandler)"
  by (simp add: is_http_def get_conf_def then_do_def)

section \<open>The reply to an execute request\<close>

lemma handle_wellformed:
  assumes t: "field msg ''msg_type'' = Some t" and i: "parent_id msg = Some i"
  shows "handle_message ps ofm msg_id (Inr msg) =
     (if i = JStr msg_id then
        if t = JStr ''error'' then
          Some (Inl (AnalyzerError
            (''ERROR - Something went wrong during the code processing. Remote kernel returns: '' @ ps msg)))
        else if t = JStr ''execute_reply'' then Some (Inr [])
        else if t = JStr ''stream'' \<or> t = JStr ''display_data'' then
          Some (case ofm msg of Inl x \<Rightarrow> Inl (Upstream x) | Inr out \<Rightarrow> Inr [out])
        else None
      else None)"
proof -
  from i obtain ph where ph: "field msg ''parent_header'' = Some ph" and ii: "field ph ''msg_id'' = Some i"
    by (auto simp: parent_id_def split: option.splits)
  have u: "then_do (upstream (ofm msg)) (\<lambda>out. Inr [out]) = (case ofm msg of Inl x \<Rightarrow> Inl (Upstream x) | Inr out \<Rightarrow> Inr [out])"
    by (simp add: then_do_def upstream_def split: sum.splits)
  have v: "then_do (subscript msg ''parent_header'') (\<lambda>ph. subscript ph ''msg_id'') = Inr i"
    by (simp add: subscript_Some[OF ph] subscript_Some[OF ii] then_do_def)
  show ?thesis
    by (simp add: handle_message_def subscript_Some[OF t] u v)
qed

lemma handle_malformed:
  assumes "field msg ''msg_type'' = None \<or> parent_id msg = None"
  shows "\<exists>e. handle_message ps ofm msg_id (Inr msg) = Some (Inl e) \<and> (e = TypeError \<or> (\<exists>k. e = KeyError k))"
proof (cases "field msg ''msg_type''")
  case None
  then obtain e where e: "subscript msg ''msg_type'' = Inl e" "e = TypeError \<or> e = KeyError ''msg_type''"
    by (rule subscript_fails)
  have "handle_message ps ofm msg_id (Inr msg) = Some (Inl e)"
    by (simp add: handle_message_def e(1))
  with e(2) show ?thesis by blast
next
  case (Some t)
  note t = subscript_Some[OF Some]
  from Some assms have p: "parent_id msg = None" by simp
  show ?thesis
  proof (cases "field msg ''parent_header''")
    case None
    then obtain e where e: "subscript msg ''parent_header'' = Inl e" "e = TypeError \<or> e = KeyError ''parent_header''"
      by (rule subscript_fails)
    have "handle_message ps ofm msg_id (Inr msg) = Some (Inl e)"
      by (simp add: handle_message_def t e(1) then_do_def)
    with e(2) show ?thesis by blast
  next
    case (Some ph)
    with p have "field ph ''msg_id'' = None" by (simp add: parent_id_def)
    then obtain e where e: "subscript ph ''msg_id'' = Inl e" "e = TypeError \<or> e = KeyError ''msg_id''"
      by (rule subscript_fails)
    have "handle_message ps ofm msg_id (Inr msg) = Some (Inl e)"
      by (simp add: handle_message_def t subscript_Some[OF Some] e(1) then_do_def)
    with e(2) show ?thesis by blast
  qed
qed

lemma handle_ignored:
  assumes "ignored msg_id msg"
  shows "handle_message ps ofm msg_id (Inr msg) = None"
proof -
  from assms obtain t i where t: "field msg ''msg_type'' = Some t" and i: "parent_id msg = Some i"
    and c: "i \<noteq> JStr msg_id \<or> \<not> terminal_type t"
    by (auto simp: ignored_def foreign_def split: option.splits)
  from c show ?thesis
    by (auto simp: handle_wellformed[OF t i] terminal_type_def)
qed

lemma await_skip:
  "\<forall>fr \<in> set pre. handle_message ps ofm msg_id fr = None \<Longrightarrow>
   await_reply ps ofm msg_id (pre @ frs) =
     (case await_reply ps ofm msg_id frs of (r, seen, unread) \<Rightarrow> (r, pre @ seen, unread))"
  by (induction pre) (auto split: prod.splits)

lemma handle_answer:
  assumes "handle_message ps ofm msg_id fr = Some r"
      and "(\<exists>outs. r = Inr outs) \<or> (\<exists>m. r = Inl (AnalyzerError m))"
  shows "\<exists>msg t. fr = Inr msg \<and> parent_id msg = Some (JStr msg_id) \<and> field msg ''msg_type'' = Some t \<and> terminal_type t"
proof (cases fr)
  case (Inl x)
  with assms show ?thesis by (auto simp: handle_message_def)
next
  case (Inr msg)
  show ?thesis
  proof (cases "field msg ''msg_type'' = None \<or> parent_id msg = None")
    case True
    from handle_malformed[OF True, of ps ofm msg_id] assms Inr show ?thesis by auto
  next
    case False
    then obtain t i where t: "field msg ''msg_type'' = Some t" and i: "parent_id msg = Some i" by auto
    from assms(1) Inr handle_wellformed[OF t i, of ps ofm msg_id]
    show ?thesis using t i Inr
      by (auto simp: terminal_type_def split: if_splits)
  qed
qed

lemma await_answer:
  "await_reply ps ofm msg_id frs = (r, seen, unread) \<Longrightarrow>
   (\<exists>outs. r = Inr outs) \<or> (\<exists>m. r = Inl (AnalyzerError m)) \<Longrightarrow>
   \<exists>before msg t. seen = before @ [Inr msg] \<and> parent_id msg = Some (JStr msg_id)
      \<and> field msg ''msg_type'' = Some t \<and> terminal_type t
      \<and> (\<forall>fr \<in> set before. handle_message ps ofm msg_id fr = None)"
proof (induction frs arbitrary: seen)
  case Nil
  then show ?case by auto
next
  case (Cons fr frs)
  show ?case
  proof (cases "handle_message ps ofm msg_id fr")
    case None
    with Cons.prems(1) obtain seen' where s: "await_reply ps ofm msg_id frs = (r, seen', unread)" and e: "seen = fr # seen'"
      by (auto split: prod.splits)
    from Cons.IH[OF s Cons.prems(2)] obtain before msg t where
      b: "seen' = before @ [Inr msg]" "parent_id msg = Some (JStr msg_id)"
         "field msg ''msg_type'' = Some t" "terminal_type t"
         "\<forall>fr \<in> set before. handle_message ps ofm msg_id fr = None" by blast
    have "seen = (fr # before) @ [Inr msg]" using e b(1) by simp
    moreover have "\<forall>f \<in> set (fr # before). handle_message ps ofm msg_id f = None" using None b(5) by simp
    ultimately show ?thesis using b(2,3,4) by blast
  next
    case (Some r')
    with Cons.prems(1) have r: "r' = r" and s: "seen = [fr]" by auto
    from handle_answer[OF Some[unfolded r] Cons.prems(2)] obtain msg t where
      "fr = Inr msg" "parent_id msg = Some (JStr msg_id)" "field msg ''msg_type'' = Some t" "terminal_type t" by blast
    then show ?thesis using s by (intro exI[of _ "[]"]) auto
  qed
qed

text \<open>
  Claim C1, as the code has it. Messages that carry a \<^verbatim>\<open>msg_type\<close> and a
  \<^verbatim>\<open>parent_header.msg_id\<close> other than the identifier of the pending request are read and
  dropped: with such messages put in front of the frames, the wait ends with the same
  result and leaves the same frames unread. And when the wait ends with outputs for the
  cell or with the kernel's error, the last frame read is a message whose
  \<^verbatim>\<open>parent_header.msg_id\<close> is the identifier awaited.
\<close>

theorem foreign_messages_dropped:
  "((\<forall>fr \<in> set pre. \<exists>msg. fr = Inr msg \<and> foreign msg_id msg) \<longrightarrow>
      await_reply ps ofm msg_id (pre @ frs) =
        (case await_reply ps ofm msg_id frs of (r, seen, unread) \<Rightarrow> (r, pre @ seen, unread)))
   \<and> (\<forall>r seen unread.
        await_reply ps ofm msg_id frs = (r, seen, unread) \<and>
        ((\<exists>outs. r = Inr outs) \<or> (\<exists>m. r = Inl (AnalyzerError m))) \<longrightarrow>
        (\<exists>before msg. seen = before @ [Inr msg] \<and> parent_id msg = Some (JStr msg_id)))"
proof (intro conjI impI allI)
  assume a: "\<forall>fr \<in> set pre. \<exists>msg. fr = Inr msg \<and> foreign msg_id msg"
  have "\<forall>fr \<in> set pre. handle_message ps ofm msg_id fr = None"
  proof
    fix fr assume "fr \<in> set pre"
    with a obtain msg where "fr = Inr msg" "foreign msg_id msg" by blast
    then show "handle_message ps ofm msg_id fr = None"
      by (simp add: handle_ignored ignored_def)
  qed
  then show "await_reply ps ofm msg_id (pre @ frs) =
        (case await_reply ps ofm msg_id frs of (r, seen, unread) \<Rightarrow> (r, pre @ seen, unread))"
    by (rule await_skip)
next
  fix r seen unread
  assume "await_reply ps ofm msg_id frs = (r, seen, unread) \<and>
        ((\<exists>outs. r = Inr outs) \<or> (\<exists>m. r = Inl (AnalyzerError m)))"
  then show "\<exists>before msg. seen = before @ [Inr msg] \<and> parent_id msg = Some (JStr msg_id)"
    using await_answer by blast
qed

theorem foreign_messages_dropped_witness:
  "await_reply (\<lambda>_. []) Inr ''t1''
     ([Inr (JObj [(''msg_type'', JStr ''stream''),
                  (''parent_header'', JObj [(''msg_id'', JStr ''t0'')])])]
      @ [Inr (JObj [(''msg_type'', JStr ''execute_reply''),
                    (''parent_header'', JObj [(''msg_id'', JStr ''t1'')])])])
   = (Inr [],
      [Inr (JObj [(''msg_type'', JStr ''stream''),
                  (''parent_header'', JObj [(''msg_id'', JStr ''t0'')])]),
       Inr (JObj [(''msg_type'', JStr ''execute_reply''),
                  (''parent_header'', JObj [(''msg_id'', JStr ''t1'')])])],
      [])
   \<and> (\<exists>before msg.
        [Inr (JObj [(''msg_type'', JStr ''execute_reply''),
                    (''parent_header'', JObj [(''msg_id'', JStr ''t1'')])])] = before @ [Inr msg]
        \<and> parent_id msg = Some (JStr ''t1''))"
  using foreign_messages_dropped
    [of "[Inr (JObj [(''msg_type'', JStr ''stream''),
                     (''parent_header'', JObj [(''msg_id'', JStr ''t0'')])])]"
        "''t1''" "\<lambda>_. []" Inr
        "[Inr (JObj [(''msg_type'', JStr ''execute_reply''),
                     (''parent_header'', JObj [(''msg_id'', JStr ''t1'')])])]"]
  by (simp add: foreign_def parent_id_def field_def handle_message_def then_do_def)

text \<open>
  A message without \<^verbatim>\<open>parent_header.msg_id\<close> is not dropped: \<^verbatim>\<open>msg['parent_header']['msg_id']\<close>
  raises a \<^verbatim>\<open>KeyError\<close>, which ends the wait in place of the reply that follows.
\<close>

theorem missing_parent_id_counterexample:
  "fst (await_reply (\<lambda>_. []) Inr ''t1''
          [Inr (JObj [(''msg_type'', JStr ''status''), (''parent_header'', JObj [])]),
           Inr (JObj [(''msg_type'', JStr ''execute_reply''),
                      (''parent_header'', JObj [(''msg_id'', JStr ''t1'')])])])
     = Inl (KeyError ''msg_id'')
   \<and> fst (await_reply (\<lambda>_. []) Inr ''t1''
          [Inr (JObj [(''msg_type'', JStr ''execute_reply''),
                      (''parent_header'', JObj [(''msg_id'', JStr ''t1'')])])])
     = Inr []"
  by (simp add: handle_message_def then_do_def)

text \<open>
  Claim C2, as the code has it. After any messages the loop passes over, a message for the
  pending request decides by its type and ends the wait at once, the frames after it left
  unread: for \<^verbatim>\<open>stream\<close> and \<^verbatim>\<open>display_data\<close> the cell gets the one output that
  \<^verbatim>\<open>output_from_msg\<close> builds from the message when it returns one, and its exception leaves
  the loop with no output assigned when it raises; \<^verbatim>\<open>execute_reply\<close> gives no output;
  \<^verbatim>\<open>error\<close> ends the run through \<^verbatim>\<open>self.error\<close> with a text that ends in the message itself.
  A message of any other type is passed over and the wait goes on with the frames after
  it.
\<close>

theorem reply_outcomes:
  assumes "\<forall>fr \<in> set pre. \<exists>m. fr = Inr m \<and> ignored msg_id m"
      and "parent_id msg = Some (JStr msg_id)"
      and "field msg ''msg_type'' = Some t"
  shows "await_reply ps ofm msg_id (pre @ Inr msg # frs) =
     (if t = JStr ''stream'' \<or> t = JStr ''display_data'' then
        (case ofm msg of Inl x \<Rightarrow> Inl (Upstream x) | Inr out \<Rightarrow> Inr [out], pre @ [Inr msg], frs)
      else if t = JStr ''execute_reply'' then (Inr [], pre @ [Inr msg], frs)
      else if t = JStr ''error'' then
        (Inl (AnalyzerError
           (''ERROR - Something went wrong during the code processing. Remote kernel returns: '' @ ps msg)),
         pre @ [Inr msg], frs)
      else (case await_reply ps ofm msg_id frs of
              (r, seen, unread) \<Rightarrow> (r, pre @ Inr msg # seen, unread)))"
proof -
  have skip: "\<forall>fr \<in> set pre. handle_message ps ofm msg_id fr = None"
    using assms(1) by (auto simp: handle_ignored)
  have here: "handle_message ps ofm msg_id (Inr msg) =
     (if t = JStr ''error'' then
        Some (Inl (AnalyzerError
          (''ERROR - Something went wrong during the code processing. Remote kernel returns: '' @ ps msg)))
      else if t = JStr ''execute_reply'' then Some (Inr [])
      else if t = JStr ''stream'' \<or> t = JStr ''display_data'' then
        Some (case ofm msg of Inl x \<Rightarrow> Inl (Upstream x) | Inr out \<Rightarrow> Inr [out])
      else None)"
    by (simp add: handle_wellformed[OF assms(3) assms(2)])
  show ?thesis
    unfolding await_skip[OF skip]
    by (simp add: here split: prod.splits)
qed

theorem reply_outcomes_witness:
  "await_reply (\<lambda>_. ''msg'') nbbase_output_from_msg ''t1''
     ([Inr (demo_message ''status'' ''t1'')]
      @ Inr (demo_stream ''t1'') # [Inr (demo_message ''execute_reply'' ''t1'')])
   = (Inr [JObj [(''output_type'', JStr ''stream''), (''name'', JStr ''stdout''),
                 (''text'', JStr ''1'')]],
      [Inr (demo_message ''status'' ''t1''), Inr (demo_stream ''t1'')],
      [Inr (demo_message ''execute_reply'' ''t1'')])"
  using reply_outcomes
    [of "[Inr (demo_message ''status'' ''t1'')]" "''t1''" "demo_stream ''t1''" "JStr ''stream''"
        "\<lambda>_. ''msg''" nbbase_output_from_msg "[Inr (demo_message ''execute_reply'' ''t1'')]"]
  by (simp add: ignored_def foreign_def terminal_type_def parent_id_def field_def
        demo_message_def demo_stream_def nbbase_output_from_msg_def read_entry_def and_then_def)

text \<open>
  A \<^verbatim>\<open>stream\<close> message for the pending request that has no \<^verbatim>\<open>header\<close>: \<^verbatim>\<open>output_from_msg\<close>
  raises a \<^verbatim>\<open>KeyError\<close>, so the first matching message of this type ends the wait with an
  exception and without an output for the cell.
\<close>

theorem stream_without_header_counterexample:
  "await_reply (\<lambda>_. ''msg'') nbbase_output_from_msg ''t1''
     [Inr (JObj [(''msg_type'', JStr ''stream''),
                 (''parent_header'', JObj [(''msg_id'', JStr ''t1'')]),
                 (''content'', JObj [(''name'', JStr ''stdout''), (''text'', JStr ''1'')])]),
      Inr (demo_message ''execute_reply'' ''t1'')]
   = (Inl (Upstream ''KeyError''),
      [Inr (JObj [(''msg_type'', JStr ''stream''),
                  (''parent_header'', JObj [(''msg_id'', JStr ''t1'')]),
                  (''content'', JObj [(''name'', JStr ''stdout''), (''text'', JStr ''1'')])])],
      [Inr (demo_message ''execute_reply'' ''t1'')])"
  by (simp add: handle_message_def then_do_def upstream_def demo_message_def
        nbbase_output_from_msg_def read_entry_def and_then_def)

section \<open>Waiting for the server of a hub\<close>

lemma first_ready_starting:
  "still_starting fr \<Longrightarrow> first_ready (fr # evs) = first_ready evs"
  by (auto simp: still_starting_def announces_ready_def field_def split: sum.splits json.splits option.splits)

lemma first_ready_skip:
  "\<forall>fr \<in> set pre. still_starting fr \<Longrightarrow> first_ready (pre @ evs) = first_ready evs"
  by (induction pre) (simp_all add: first_ready_starting)

lemma first_ready_announced:
  assumes "announces_ready event"
  shows "first_ready (Inr event # evs) = (Some (subscript event ''url''), evs)"
proof -
  from assms obtain kvs r where e: "event = JObj kvs" and r: "map_of kvs ''ready'' = Some r" and t: "truthy r"
    by (auto simp: announces_ready_def field_def split: json.splits option.splits)
  show ?thesis unfolding e by (simp add: r t)
qed

lemma first_ready_stops:
  assumes "\<not> still_starting fr"
  shows "\<exists>r. first_ready (fr # evs) = (Some r, evs) \<and> (\<forall>m. r \<noteq> Inl (ValueError m))"
proof (cases fr)
  case (Inl x)
  then show ?thesis by simp
next
  case (Inr event)
  show ?thesis
  proof (cases event)
    case (JObj kvs)
    with assms Inr have a: "announces_ready event" by (simp add: still_starting_def)
    have "\<forall>m. subscript event ''url'' \<noteq> Inl (ValueError m)"
      unfolding JObj by (simp split: option.splits)
    with first_ready_announced[OF a, of evs] Inr show ?thesis by simp
  qed (use Inr in simp_all)
qed

lemma first_ready_exhausted:
  "(fst (first_ready evs) = None) = (\<forall>fr \<in> set evs. still_starting fr)"
proof (induction evs)
  case Nil
  then show ?case by simp
next
  case (Cons fr evs)
  show ?case
  proof (cases "still_starting fr")
    case True
    then show ?thesis using Cons by (simp add: first_ready_starting)
  next
    case False
    from first_ready_stops[OF False, of evs] False show ?thesis by auto
  qed
qed

lemma first_ready_no_ValueError:
  "first_ready evs = (Some (Inl e), unread) \<Longrightarrow> e \<noteq> ValueError m"
proof (induction evs)
  case Nil
  then show ?case by simp
next
  case (Cons fr evs)
  show ?case
  proof (cases "still_starting fr")
    case True
    with Cons show ?thesis by (simp add: first_ready_starting)
  next
    case False
    from first_ready_stops[OF False, of evs] Cons.prems show ?thesis by auto
  qed
qed

text \<open>
  Claim C3, as the code has it. After events that are not ready, the first event with a
  true \<^verbatim>\<open>ready\<close> entry ends the wait, and the events after it stay unread: the value
  returned is the hub's URL followed by the \<^verbatim>\<open>url\<close> entry of that event, and an event
  without the entry raises a \<^verbatim>\<open>KeyError\<close>. The wait fails with the \<^verbatim>\<open>ValueError\<close> that names
  the user and the server exactly when every item of the stream is an event that is not
  ready.
\<close>

theorem server_ready:
  "((\<forall>fr \<in> set pre. still_starting fr) \<and> announces_ready event \<longrightarrow>
      wait_until_ready ps hub_url log_name (pre @ Inr event # rest) =
        (case field event ''url'' of
           Some u \<Rightarrow> Inr (hub_url @ format_value ps u)
         | None \<Rightarrow> Inl (KeyError ''url''),
         rest))
   \<and> ((fst (wait_until_ready ps hub_url log_name evs) = Inl (ValueError (log_name @ '' never started!'')))
        = (\<forall>fr \<in> set evs. still_starting fr))"
proof (intro conjI impI)
  assume a: "(\<forall>fr \<in> set pre. still_starting fr) \<and> announces_ready event"
  then obtain kvs where e: "event = JObj kvs"
    by (auto simp: announces_ready_def field_def split: json.splits)
  have s1: "first_ready (pre @ Inr event # rest) = first_ready (Inr event # rest)"
    using a by (intro first_ready_skip) blast
  have s2: "first_ready (Inr event # rest) = (Some (subscript event ''url''), rest)"
    using a by (intro first_ready_announced) blast
  have "first_ready (pre @ Inr event # rest) = (Some (subscript event ''url''), rest)"
    by (simp only: s1 s2)
  then show "wait_until_ready ps hub_url log_name (pre @ Inr event # rest) =
        (case field event ''url'' of
           Some u \<Rightarrow> Inr (hub_url @ format_value ps u)
         | None \<Rightarrow> Inl (KeyError ''url''),
         rest)"
    by (simp add: wait_until_ready_def e field_def split: option.splits)
next
  show "(fst (wait_until_ready ps hub_url log_name evs) = Inl (ValueError (log_name @ '' never started!'')))
        = (\<forall>fr \<in> set evs. still_starting fr)"
  proof (cases "first_ready evs")
    case (Pair r unread)
    show ?thesis
    proof (cases r)
      case None
      with Pair first_ready_exhausted[of evs] show ?thesis
        by (simp add: wait_until_ready_def)
    next
      case (Some res)
      with Pair first_ready_exhausted[of evs] have n: "\<not> (\<forall>fr \<in> set evs. still_starting fr)" by simp
      show ?thesis
      proof (cases res)
        case (Inl e)
        with Pair Some first_ready_no_ValueError[of evs e unread] n show ?thesis
          by (simp add: wait_until_ready_def)
      next
        case (Inr u)
        with Pair Some n show ?thesis by (simp add: wait_until_ready_def)
      qed
    qed
  qed
qed

theorem server_ready_witness:
  "wait_until_ready (\<lambda>_. []) ''http://hub'' ''u/cortex_job''
     ([Inr (JObj [(''progress'', JNum 50), (''ready'', JBool False)])]
      @ Inr (JObj [(''ready'', JBool True), (''url'', JStr ''/user/u/cortex_job/'')])
      # [Inl ''ConnectionError''])
   = (Inr ''http://hub/user/u/cortex_job/'', [Inl ''ConnectionError''])
   \<and> fst (wait_until_ready (\<lambda>_. []) ''http://hub'' ''u/cortex_job''
            [Inr (JObj [(''progress'', JNum 0)]), Inr (JObj [(''progress'', JNum 50)])])
     = Inl (ValueError ''u/cortex_job never started!'')"
  using server_ready
    [of "[Inr (JObj [(''progress'', JNum 50), (''ready'', JBool False)])]"
        "JObj [(''ready'', JBool True), (''url'', JStr ''/user/u/cortex_job/'')]"
        "\<lambda>_. []" "''http://hub''" "''u/cortex_job''" "[Inl ''ConnectionError'']"
        "[Inr (JObj [(''progress'', JNum 0)]), Inr (JObj [(''progress'', JNum 50)])]"]
  by (simp add: still_starting_def announces_ready_def field_def format_value_def)

text \<open>
  The value returned is not the \<^verbatim>\<open>url\<close> entry: \<^verbatim>\<open>start_server\<close> returns
  \<^verbatim>\<open>f"{hub_url}{server_url}"\<close>. And a ready event without the entry neither yields a URL nor
  the \<^verbatim>\<open>ValueError\<close>.
\<close>

theorem server_url_counterexample:
  "fst (wait_until_ready (\<lambda>_. []) ''http://hub'' ''u/cortex_job''
          [Inr (JObj [(''ready'', JBool True), (''url'', JStr ''/user/u/cortex_job/'')])])
     = Inr ''http://hub/user/u/cortex_job/''
   \<and> fst (wait_until_ready (\<lambda>_. []) ''http://hub'' ''u/cortex_job''
          [Inr (JObj [(''ready'', JBool True), (''url'', JStr ''/user/u/cortex_job/'')])])
     \<noteq> Inr ''/user/u/cortex_job/''
   \<and> fst (wait_until_ready (\<lambda>_. []) ''http://hub'' ''u/cortex_job''
          [Inr (JObj [(''ready'', JBool True)])])
     = Inl (KeyError ''url'')"
  by (simp add: wait_until_ready_def format_value_def)

section \<open>Waiting for a server to stop\<close>









section \<open>Building and reading the configurations\<close>

text \<open>
  The analyzer of the sample job is the one \<^verbatim>\<open>__init__\<close> builds from the parameters of the
  job; without \<^verbatim>\<open>config.any_only_html\<close> the construction ends through \<^verbatim>\<open>self.error\<close>.
\<close>

lemma demo_analyzer_built:
  "init demo_env demo_settings = Inr demo_analyzer"
  "init demo_env (demo_settings\<lparr>config_any_only_html := None\<rparr>) =
     Inl (AnalyzerError ''You must identify if you want to HTML response only for long reports'')"
  by code_simp+

lemma initialize_path_other:
  "get_handler ev host \<noteq> HttpHandler \<Longrightarrow> initialize_path ev cfg h host api_token is_hub = Inr None"
  by (simp add: initialize_path_def)

lemma initialize_path_no_token:
  assumes "get_handler ev host = HttpHandler" and "api_token = None \<or> api_token = Some []"
  shows "\<exists>m. initialize_path ev cfg h host api_token is_hub = Inl (AnalyzerError m)"
  using assms by (auto simp: initialize_path_def then_do_Inl)

lemma initialize_path_no_user:
  assumes "get_handler ev host = HttpHandler"
      and "config_any_handler_http_user cfg = None \<or> config_any_handler_http_user cfg = Some []"
  shows "\<exists>m. initialize_path ev cfg h host api_token is_hub = Inl (AnalyzerError m)"
proof (cases "api_token = None \<or> api_token = Some []")
  case True
  with assms(1) show ?thesis by (rule initialize_path_no_token)
next
  case False
  then obtain t where t: "api_token = Some t" "t \<noteq> []" by auto
  from assms(2) show ?thesis
    by (auto simp: initialize_path_def assms(1) t then_do_Inl then_do_Inr getParam_def)
qed

lemma initialize_path_built:
  assumes "initialize_path ev cfg h host api_token is_hub = Inr (Some c)"
  shows "handler_type c = HttpHandler \<and> handler_http_service_api_token c \<noteq> [] \<and> handler_http_user c \<noteq> []
         \<and> api_token = Some (handler_http_service_api_token c)
         \<and> config_any_handler_http_user cfg = Some (handler_http_user c)"
proof -
  have http: "get_handler ev host = HttpHandler"
    using assms by (auto simp: initialize_path_def split: if_splits)
  have "\<not> (api_token = None \<or> api_token = Some [])"
  proof
    assume a: "api_token = None \<or> api_token = Some []"
    from initialize_path_no_token[OF http a, where cfg = cfg and h = h and is_hub = is_hub] assms
    show False by auto
  qed
  then obtain t where t: "api_token = Some t" "t \<noteq> []" by auto
  have "\<not> (config_any_handler_http_user cfg = None \<or> config_any_handler_http_user cfg = Some [])"
  proof
    assume a: "config_any_handler_http_user cfg = None \<or> config_any_handler_http_user cfg = Some []"
    from initialize_path_no_user[OF http a, where h = h and api_token = api_token and is_hub = is_hub] assms
    show False by auto
  qed
  then obtain u where u: "config_any_handler_http_user cfg = Some u" "u \<noteq> []" by auto
  show ?thesis
  proof (cases is_hub)
    case True
    with assms obtain srv where "c = \<lparr>hostname = host, handler_type = HttpHandler,
                         handler_http_service_api_token = t,
                         handler_http_is_jupyterhub = is_hub,
                         handler_http_headers = [(''Authorization'', ''token '' @ t)],
                         handler_http_user = u,
                         server = Some srv,
                         server_uri_http_api_contents = srv @ ''api/contents'',
                         server_uri_http_api_kernels = srv @ ''api/kernels'',
                         server_uri_ws_api_kernels =
                           py_replace ''http://'' ''ws://'' (srv @ ''api/kernels'')\<rparr>"
      by (auto simp: initialize_path_def http t u then_do_Inr getParam_def dest!: then_do_eq_Inr)
    then show ?thesis using t u by simp
  next
    case False
    with assms show ?thesis
      by (auto simp: initialize_path_def http t u then_do_Inr getParam_def)
  qed
qed

text \<open>
  Claim C8, as the code has it. The checks of \<^verbatim>\<open>initialize_path\<close> stand under the test for
  \<^verbatim>\<open>HttpHandler\<close>, not under the hub flag: for a hostname of the HTTP handler, hub or not, an
  absent or empty token and an absent or empty user end the run through \<^verbatim>\<open>self.error\<close>, and
  every configuration that is returned is one of the HTTP handler with a token and a user
  that are not empty; for a hostname of another handler nothing is checked and \<^verbatim>\<open>None\<close> is
  returned.
\<close>

theorem http_endpoint_needs_token_and_user:
  "(get_handler ev host = HttpHandler \<and>
      (api_token = None \<or> api_token = Some [] \<or>
       config_any_handler_http_user cfg = None \<or> config_any_handler_http_user cfg = Some []) \<longrightarrow>
      (\<exists>m. initialize_path ev cfg h host api_token is_hub = Inl (AnalyzerError m)))
   \<and> (\<forall>c. initialize_path ev cfg h host api_token is_hub = Inr (Some c) \<longrightarrow>
          handler_type c = HttpHandler \<and> handler_http_service_api_token c \<noteq> [] \<and>
          handler_http_user c \<noteq> [])
   \<and> (get_handler ev host \<noteq> HttpHandler \<longrightarrow>
          initialize_path ev cfg h host api_token is_hub = Inr None)"
  using initialize_path_no_token[of ev host api_token cfg h is_hub]
        initialize_path_no_user[of ev host cfg h api_token is_hub]
        initialize_path_built[of ev cfg h host api_token is_hub]
        initialize_path_other[of ev host cfg h api_token is_hub]
  by blast

theorem http_endpoint_needs_token_and_user_witness:
  "(\<exists>m. initialize_path demo_env demo_settings demo_hub ''http://nb/'' (Some []) True
           = Inl (AnalyzerError m))
   \<and> initialize_path demo_env demo_settings demo_hub ''/data/notebooks'' (Some []) True = Inr None"
  using http_endpoint_needs_token_and_user
    [of demo_env "''http://nb/''" "Some []" demo_settings demo_hub True]
    http_endpoint_needs_token_and_user
    [of demo_env "''/data/notebooks''" "Some []" demo_settings demo_hub True]
  by (simp add: demo_env_def)

text \<open>
  With the hub flag set, an empty token and an empty user, on hostnames that are not of the
  HTTP handler: \<^verbatim>\<open>__init__\<close> ends without an error and the analyzer is built.
\<close>

theorem hub_without_token_counterexample:
  "init demo_env
     (demo_settings
        \<lparr>config_input_hostname := Some ''/data/in'',
         config_input_handler_http_service_api_token := Some [],
         config_input_handler_http_is_jupyterhub := Some True,
         config_output_hostname := Some ''/data/out'',
         config_output_handler_http_service_api_token := Some [],
         config_output_handler_http_is_jupyterhub := Some True,
         config_any_handler_http_user := Some []\<rparr>)
   = Inr \<lparr>input_configuration = None, input_paths = [''/a.ipynb''],
          input_execute_remotely = True, output_configuration = None,
          output_folder = ''/out/'', any_only_html = True,
          params = demo_settings
            \<lparr>config_input_hostname := Some ''/data/in'',
             config_input_handler_http_service_api_token := Some [],
             config_input_handler_http_is_jupyterhub := Some True,
             config_output_hostname := Some ''/data/out'',
             config_output_handler_http_service_api_token := Some [],
             config_output_handler_http_is_jupyterhub := Some True,
             config_any_handler_http_user := Some []\<rparr>\<rparr>"
  by (simp add: init_def demo_settings_def demo_env_def getParam_def then_do_def initialize_path_def)

lemma get_conf_missing:
  "input_configuration self = None \<Longrightarrow> get_conf self ''input'' name = Inl TypeError"
  "output_configuration self = None \<Longrightarrow> get_conf self ''output'' name = Inl TypeError"
  by (simp_all add: get_conf_def)

lemma run_all_locally_missing:
  assumes "input_configuration self = None"
  shows "run_all_locally ev self paths = (if paths = [] then Inr [] else Inl TypeError)"
proof (cases paths)
  case Nil
  then show ?thesis by simp
next
  case (Cons p ps)
  have "run_locally ev self p = Inl TypeError"
    by (simp add: run_locally_def input_notebook_path_def is_http_def get_conf_missing(1)[OF assms] then_do_Inl)
  then show ?thesis using Cons by (simp add: then_do_Inl)
qed

text \<open>
  Claim C9, as the code has it. For a hostname that is not of the HTTP handler
  \<^verbatim>\<open>initialize_path\<close> returns \<^verbatim>\<open>None\<close>, and every \<^verbatim>\<open>get_conf\<close> on an endpoint left so raises a
  \<^verbatim>\<open>TypeError\<close>. The test of the execution mode reads the input configuration only when
  \<^verbatim>\<open>input_execute_remotely\<close> is true, and fails then; otherwise it is false without a read,
  and \<^verbatim>\<open>run\<close> fails at the first path of its local loop, or reports no notebook when there
  is no path.
\<close>

theorem unconfigured_endpoint:
  "(get_handler ev host \<noteq> HttpHandler \<longrightarrow>
      initialize_path ev cfg h host api_token is_hub = Inr None)
   \<and> (input_configuration self = None \<longrightarrow>
        get_conf self ''input'' name = Inl TypeError
        \<and> execute_remotely self = (if input_execute_remotely self then Inl TypeError else Inr False)
        \<and> run ev self =
            (if input_execute_remotely self \<or> input_paths self \<noteq> [] then Inl TypeError
             else Inr (JObj [(''notebooks'', JArr [])])))
   \<and> (output_configuration self = None \<longrightarrow> get_conf self ''output'' name = Inl TypeError)"
proof (intro conjI impI)
  assume "get_handler ev host \<noteq> HttpHandler"
  then show "initialize_path ev cfg h host api_token is_hub = Inr None"
    by (rule initialize_path_other)
next
  assume n: "input_configuration self = None"
  show "get_conf self ''input'' name = Inl TypeError"
    by (rule get_conf_missing(1)[OF n])
  show x: "execute_remotely self = (if input_execute_remotely self then Inl TypeError else Inr False)"
    by (simp add: execute_remotely_def is_http_def get_conf_missing(1)[OF n] then_do_Inl)
  show "run ev self =
            (if input_execute_remotely self \<or> input_paths self \<noteq> [] then Inl TypeError
             else Inr (JObj [(''notebooks'', JArr [])]))"
    by (simp add: run_def x run_all_locally_missing[OF n] then_do_Inl then_do_Inr)
next
  assume "output_configuration self = None"
  then show "get_conf self ''output'' name = Inl TypeError"
    by (rule get_conf_missing(2))
qed

theorem unconfigured_endpoint_witness:
  "initialize_path demo_env demo_settings demo_hub ''/data/notebooks'' (Some ''abc'') False = Inr None
   \<and> get_conf (demo_analyzer\<lparr>input_configuration := None\<rparr>) ''input'' hostname = Inl TypeError
   \<and> execute_remotely (demo_analyzer\<lparr>input_configuration := None\<rparr>) = Inl TypeError
   \<and> run demo_env (demo_analyzer\<lparr>input_configuration := None\<rparr>) = Inl TypeError
   \<and> get_conf (demo_analyzer\<lparr>output_configuration := None\<rparr>) ''output'' hostname = Inl TypeError"
  using unconfigured_endpoint
    [of demo_env "''/data/notebooks''" demo_settings demo_hub "Some ''abc''" False
        "demo_analyzer\<lparr>input_configuration := None\<rparr>" hostname]
    unconfigured_endpoint
    [of demo_env "''/data/notebooks''" demo_settings demo_hub "Some ''abc''" False
        "demo_analyzer\<lparr>output_configuration := None\<rparr>" hostname]
  by (simp add: demo_env_def demo_analyzer_def)

text \<open>
  With \<^verbatim>\<open>input_execute_remotely\<close> false the test of the execution mode is evaluated for an
  endpoint without configuration: it is false, and with no path to run the run ends with
  its report.
\<close>

theorem execution_mode_counterexample:
  "execute_remotely
     (demo_analyzer\<lparr>input_configuration := None, input_execute_remotely := False\<rparr>) = Inr False
   \<and> run demo_env
     (demo_analyzer\<lparr>input_configuration := None, input_execute_remotely := False,
                     input_paths := []\<rparr>)
     = Inr (JObj [(''notebooks'', JArr [])])"
  by (simp add: execute_remotely_def run_def demo_analyzer_def then_do_def)

section \<open>The output location\<close>

lemma output_path_pair_http:
  assumes "output_configuration self = Some oc" and "handler_type oc = HttpHandler"
      and "input_configuration self = Some ic" and "param_data (params self) = Some d"
  shows "output_path_pair ev self path =
     Inr (server_uri_http_api_contents oc @ output_folder self @ today ev @ ''-'' @ d @ ''-''
            @ drop 1 path @ ''?token='' @ handler_http_service_api_token oc,
          hostname oc @ ''/user/'' @ handler_http_user ic @ ''/tree'' @ output_folder self
            @ today ev @ ''-'' @ d @ ''-'' @ drop 1 path)"
  by (simp add: output_path_pair_def is_http_output[OF assms(1)] assms(2) assms(4)
        conf_str_output[OF assms(1)] conf_str_input[OF assms(3)] getParam_def then_do_Inr)

text \<open>
  Claim C5, as the code has it. For an output endpoint of the HTTP handler the location
  has two forms. The form written to is the contents URI of the output configuration, the
  output folder, the date, the observable and the path without its first character,
  followed by \<^verbatim>\<open>?token=\<close> and the token. The form reported is built from the hostname of the
  output configuration and the user of the input configuration in place of the contents
  URI, and no token enters it: it stays the same under any other token. Both depend on the
  path only through what follows its first character.
\<close>

theorem output_location:
  assumes "output_configuration self = Some oc" and "handler_type oc = HttpHandler"
      and "input_configuration self = Some ic" and "param_data (params self) = Some d"
  shows "output_path_pair ev self path =
     Inr (server_uri_http_api_contents oc @ output_folder self @ today ev @ ''-'' @ d @ ''-''
            @ drop 1 path @ ''?token='' @ handler_http_service_api_token oc,
          hostname oc @ ''/user/'' @ handler_http_user ic @ ''/tree'' @ output_folder self
            @ today ev @ ''-'' @ d @ ''-'' @ drop 1 path)
   \<and> map_sum id snd
         (output_path_pair ev
            (self\<lparr>output_configuration := Some (oc\<lparr>handler_http_service_api_token := t\<rparr>)\<rparr>) path)
       = map_sum id snd (output_path_pair ev self path)
   \<and> (drop 1 path' = drop 1 path \<longrightarrow>
        output_path_pair ev self path' = output_path_pair ev self path)"
proof (intro conjI impI)
  show "output_path_pair ev self path =
     Inr (server_uri_http_api_contents oc @ output_folder self @ today ev @ ''-'' @ d @ ''-''
            @ drop 1 path @ ''?token='' @ handler_http_service_api_token oc,
          hostname oc @ ''/user/'' @ handler_http_user ic @ ''/tree'' @ output_folder self
            @ today ev @ ''-'' @ d @ ''-'' @ drop 1 path)"
    by (rule output_path_pair_http[OF assms])
next
  let ?self = "self\<lparr>output_configuration := Some (oc\<lparr>handler_http_service_api_token := t\<rparr>)\<rparr>"
  have "output_path_pair ev ?self path =
     Inr (server_uri_http_api_contents oc @ output_folder self @ today ev @ ''-'' @ d @ ''-''
            @ drop 1 path @ ''?token='' @ t,
          hostname oc @ ''/user/'' @ handler_http_user ic @ ''/tree'' @ output_folder self
            @ today ev @ ''-'' @ d @ ''-'' @ drop 1 path)"
    using output_path_pair_http[of ?self "oc\<lparr>handler_http_service_api_token := t\<rparr>" ic d ev path] assms
    by simp
  then show "map_sum id snd (output_path_pair ev ?self path) = map_sum id snd (output_path_pair ev self path)"
    by (simp add: output_path_pair_http[OF assms])
next
  assume "drop 1 path' = drop 1 path"
  then show "output_path_pair ev self path' = output_path_pair ev self path"
    by (simp add: output_path_pair_http[OF assms])
qed

theorem output_location_witness:
  "output_path_pair demo_env demo_analyzer ''/a.ipynb'' =
     Inr (''http://nb/api/contents/out/2024-01-31-1.2.3.4-a.ipynb?token=abc'',
          ''http://nb//user/u/tree/out/2024-01-31-1.2.3.4-a.ipynb'')
   \<and> output_path_pair demo_env demo_analyzer ''xa.ipynb''
       = output_path_pair demo_env demo_analyzer ''/a.ipynb''"
  using output_location
    [of demo_analyzer "demo_configuration ''abc''" "demo_configuration ''abcdef''" "''1.2.3.4''"
        demo_env "''/a.ipynb''" "''abc''" "''xa.ipynb''"]
  by (simp add: demo_analyzer_def demo_configuration_def demo_settings_def demo_env_def)

text \<open>
  The location is not a function of hostname, output folder, date, observable and path
  alone: with all of these the same, another user gives another reported location.
\<close>

theorem output_location_counterexample:
  "output_path_pair demo_env demo_analyzer ''/a.ipynb'' =
     Inr (''http://nb/api/contents/out/2024-01-31-1.2.3.4-a.ipynb?token=abc'',
          ''http://nb//user/u/tree/out/2024-01-31-1.2.3.4-a.ipynb'')
   \<and> output_path_pair demo_env
         (demo_analyzer
            \<lparr>input_configuration := Some ((demo_configuration ''abcdef'')\<lparr>handler_http_user := ''v''\<rparr>)\<rparr>)
         ''/a.ipynb'' =
     Inr (''http://nb/api/contents/out/2024-01-31-1.2.3.4-a.ipynb?token=abc'',
          ''http://nb//user/v/tree/out/2024-01-31-1.2.3.4-a.ipynb'')"
  by (simp add: output_path_pair_def is_http_def conf_str_def get_conf_def getParam_def then_do_def
        demo_analyzer_def demo_configuration_def demo_settings_def demo_env_def)

section \<open>Sanitizing the recorded paths\<close>

lemma sanitize_secret_recorded:
  assumes oc: "output_configuration self = Some oc" and r: "recorded key nb = Inr (JStr s)"
  shows "then_do (sanitize_secret self key nb) (recorded key) =
     Inr (JStr (py_replace (''?token='' @ handler_http_service_api_token oc) [] s))"
proof -
  from then_do_eq_Inr[OF r[unfolded recorded_def]]
  obtain md where m: "subscript nb ''metadata'' = Inr md"
    and r2: "then_do (subscript md ''papermill'') (\<lambda>papermill. subscript papermill key) = Inr (JStr s)"
    by blast
  from then_do_eq_Inr[OF r2]
  obtain pm where p: "subscript md ''papermill'' = Inr pm" and k: "subscript pm key = Inr (JStr s)"
    by blast
  from m obtain kvs where nb: "nb = JObj kvs" and mk: "map_of kvs ''metadata'' = Some md"
    by (rule subscript_InrD)
  from p obtain mkvs where md: "md = JObj mkvs" and pk: "map_of mkvs ''papermill'' = Some pm"
    by (rule subscript_InrD)
  from k obtain pkvs where pm: "pm = JObj pkvs" and kk: "map_of pkvs key = Some (JStr s)"
    by (rule subscript_InrD)
  show ?thesis
    unfolding sanitize_secret_def recorded_def nb
    by (simp add: then_do_def mk md pk pm kk conf_str_output[OF oc] AList.update_conv')
qed

text \<open>
  Claim C10, at a job the code fails it on. Both statements under \<^verbatim>\<open># Sanitize secrets\<close>
  remove \<^verbatim>\<open>?token=\<close> followed by the token of the output configuration, also the one for
  \<^verbatim>\<open>input_path\<close> (line 427), whose path was built with the token of the input configuration
  (line 392). The sample job run locally, as \<^verbatim>\<open>__init__\<close> builds the analyzer from its
  parameters: the input token is \<^verbatim>\<open>abcdef\<close>, the output token \<^verbatim>\<open>abc\<close>, and papermill records
  the input path \<^verbatim>\<open>http://nb/api/contents//a.ipynb?token=abcdef\<close>. The two tokens differ,
  \<^verbatim>\<open>?token=abc\<close> is cut out of the recorded input path, and what is reported ends in \<^verbatim>\<open>def\<close>:
  the input token does not remain in it. The recorded output path loses its token as
  intended.
\<close>

theorem input_path_sanitized_with_output_token:
  "then_do (init demo_env
              (demo_settings\<lparr>config_input_handler_http_execute_remotely := Some False\<rparr>)) (\<lambda>self.
   then_do (run_locally demo_env self ''/a.ipynb'') (\<lambda>nb.
   then_do (recorded ''input_path'' nb) (\<lambda>input_path.
   then_do (recorded ''output_path'' nb) (\<lambda>output_path. Inr (input_path, output_path)))))
   = Inr (JStr ''http://nb/api/contents//a.ipynbdef'',
          JStr ''http://nb/api/contents/out/2024-01-31-1.2.3.4-a.ipynb'')
   \<and> \<not> sublist ''abcdef'' ''http://nb/api/contents//a.ipynbdef''"
  by code_simp

section \<open>The cells of a notebook\<close>

lemma submitted_append: "submitted (xs @ ys) = submitted xs @ submitted ys"
  by (induction xs rule: submitted.induct) simp_all

lemma waiting_append: "waiting w (xs @ ys) = waiting (waiting w xs) ys"
  by (induction w xs rule: waiting.induct) simp_all

lemma sequential_append:
  "sequential w (xs @ ys) = (sequential w xs \<and> sequential (waiting w xs) ys)"
  by (induction w xs rule: sequential.induct) simp_all

lemma submitted_recvs: "submitted (map Recv frs) = []"
  by (induction frs) simp_all

lemma sequential_recvs: "sequential w (map Recv frs)"
  by (induction frs arbitrary: w) simp_all

lemma close_recvs: "Close \<notin> set (map Recv frs)"
  by auto

lemma waiting_recvs_None: "waiting None (map Recv frs) = None"
  by (induction frs) simp_all

lemma waiting_recvs:
  "waiting (Some i) (map Recv frs) = None \<or> waiting (Some i) (map Recv frs) = Some i"
  by (induction frs) (simp_all add: waiting_recvs_None)

lemma waiting_answered:
  assumes "answers i fr"
  shows "waiting (Some i) (map Recv (before @ [fr])) = None"
  using waiting_recvs[of i before] assms
  by (auto simp: waiting_append)

lemma run_cell_other:
  assumes "field cell ''cell_type'' = Some t" and "t \<noteq> JStr ''code''"
  shows "run_cell ev cell ws = (Inr cell, ws)"
  by (simp add: run_cell_def subscript_Some[OF assms(1)] assms(2))

lemma run_cell_malformed:
  assumes "field cell ''cell_type'' = None"
  shows "\<exists>e. run_cell ev cell ws = (Inl e, ws)"
proof -
  from assms obtain e where "subscript cell ''cell_type'' = Inl e"
    by (rule subscript_fails)
  then show ?thesis by (simp add: run_cell_def)
qed

lemma run_cell_code:
  assumes "is_code cell"
  shows "run_cell ev cell ws =
     (case subscript cell ''source'' of
        Inl e \<Rightarrow> (Inl e, ws\<lparr>issued := issued ws + 1\<rparr>)
      | Inr code \<Rightarrow>
         (case await_reply (py_str ev) (output_from_msg ev) (uuid4_hex ev (issued ws)) (inbox ws) of
            (r, seen, unread) \<Rightarrow>
              (then_do r (\<lambda>outputs. set_item cell ''outputs'' (JArr outputs)),
               ws\<lparr>issued := issued ws + 1, inbox := unread,
                  trace := trace ws @ Send (uuid4_hex ev (issued ws)) code # map Recv seen\<rparr>)))"
  using assms
  by (simp add: run_cell_def is_code_def subscript_Some Let_def split: sum.splits prod.splits)

lemma set_item_passed:
  assumes "set_item cell ''outputs'' x = Inr cell'"
  shows "set_item cell' ''outputs'' JNull = set_item cell ''outputs'' JNull"
  using assms by (cases cell) auto

lemma run_cell_effect:
  assumes "run_cell ev cell ws = (r, ws')"
  shows "\<exists>new. trace ws' = trace ws @ new \<and> sequential None new \<and> Close \<notin> set new
           \<and> prefix (map Some (submitted new)) (code_sources [cell])
           \<and> (\<forall>cell'. r = Inr cell' \<longrightarrow>
                 waiting None new = None \<and> map Some (submitted new) = code_sources [cell]
                 \<and> passed cell cell')"
proof (cases "field cell ''cell_type''")
  case None
  with run_cell_malformed[OF None, of ev ws] assms
  show ?thesis by (intro exI[of _ "[]"]) auto
next
  case (Some t)
  show ?thesis
  proof (cases "t = JStr ''code''")
    case False
    have n: "\<not> is_code cell" using Some False by (simp add: is_code_def)
    from run_cell_other[OF Some False, of ev ws] assms
    show ?thesis
      by (intro exI[of _ "[]"]) (auto simp: code_sources_def n passed_def)
  next
    case True
    with Some have c: "is_code cell" by (simp add: is_code_def)
    show ?thesis
    proof (cases "field cell ''source''")
      case None
      then obtain e where "subscript cell ''source'' = Inl e" by (rule subscript_fails)
      with assms have "r = Inl e" "trace ws' = trace ws"
        by (auto simp: run_cell_code[OF c])
      then show ?thesis by (intro exI[of _ "[]"]) auto
    next
      case (Some code)
      let ?i = "uuid4_hex ev (issued ws)"
      obtain r0 seen unread where
        a: "await_reply (py_str ev) (output_from_msg ev) ?i (inbox ws) = (r0, seen, unread)"
        by (cases "await_reply (py_str ev) (output_from_msg ev) ?i (inbox ws)") auto
      let ?new = "Send ?i code # map Recv seen"
      from assms have r: "r = then_do r0 (\<lambda>outputs. set_item cell ''outputs'' (JArr outputs))"
        and t: "trace ws' = trace ws @ ?new"
        by (auto simp: run_cell_code[OF c] subscript_Some[OF Some] a)
      have s: "map Some (submitted ?new) = code_sources [cell]"
        by (simp add: submitted_recvs code_sources_def c Some)
      have q: "sequential None ?new" by (simp add: sequential_recvs)
      have cl: "Close \<notin> set ?new" by auto
      have fin: "waiting None ?new = None \<and> passed cell cell'" if "r = Inr cell'" for cell'
      proof -
        from that r obtain outs where o: "r0 = Inr outs"
          and si: "set_item cell ''outputs'' (JArr outs) = Inr cell'"
          by (auto dest!: then_do_eq_Inr)
        from await_answer[OF a[unfolded o]] obtain before msg ty where
          b: "seen = before @ [Inr msg]" "parent_id msg = Some (JStr ?i)"
             "field msg ''msg_type'' = Some ty" "terminal_type ty"
          by blast
        have "answers ?i (Inr msg)" using b(2,3,4) by (simp add: answers_def)
        from waiting_answered[OF this, of before] have "waiting None ?new = None"
          by (simp add: b(1))
        moreover have "passed cell cell'"
          using set_item_passed[OF si] by (simp add: passed_def c)
        ultimately show ?thesis by simp
      qed
      show ?thesis
        using t q cl s fin by (intro exI[of _ ?new]) (simp del: submitted.simps sequential.simps waiting.simps)
    qed
  qed
qed

lemma code_sources_Cons: "code_sources (cell # cells) = code_sources [cell] @ code_sources cells"
  by (simp add: code_sources_def)

lemma run_cells_effect:
  "run_cells ev cells ws = (r, ws') \<Longrightarrow>
   \<exists>new. trace ws' = trace ws @ new \<and> sequential None new \<and> Close \<notin> set new
      \<and> prefix (map Some (submitted new)) (code_sources cells)
      \<and> (\<forall>cells'. r = Inr cells' \<longrightarrow>
            waiting None new = None \<and> map Some (submitted new) = code_sources cells
            \<and> list_all2 passed cells cells')"
proof (induction cells arbitrary: ws r ws')
  case Nil
  then show ?case by (intro exI[of _ "[]"]) (auto simp: code_sources_def)
next
  case (Cons cell cells)
  obtain r1 ws1 where c1: "run_cell ev cell ws = (r1, ws1)" by (cases "run_cell ev cell ws") auto
  from run_cell_effect[OF c1] obtain new1 where
    n1: "trace ws1 = trace ws @ new1" "sequential None new1" "Close \<notin> set new1"
        "prefix (map Some (submitted new1)) (code_sources [cell])"
        "\<forall>cell'. r1 = Inr cell' \<longrightarrow>
            waiting None new1 = None \<and> map Some (submitted new1) = code_sources [cell]
            \<and> passed cell cell'"
    by blast
  show ?case
  proof (cases r1)
    case (Inl e)
    with Cons.prems c1 have "r = Inl e" "ws' = ws1" by auto
    moreover have "prefix (map Some (submitted new1)) (code_sources (cell # cells))"
      using n1(4) unfolding code_sources_Cons[of cell cells] by (rule prefix_prefix)
    ultimately show ?thesis using n1(1,2,3) by (intro exI[of _ new1]) auto
  next
    case (Inr cell')
    with n1(5) have w1: "waiting None new1 = None"
      and s1: "map Some (submitted new1) = code_sources [cell]"
      and p1: "passed cell cell'" by auto
    obtain r2 ws2 where c2: "run_cells ev cells ws1 = (r2, ws2)"
      by (cases "run_cells ev cells ws1") auto
    from Cons.IH[OF c2] obtain new2 where
      n2: "trace ws2 = trace ws1 @ new2" "sequential None new2" "Close \<notin> set new2"
          "prefix (map Some (submitted new2)) (code_sources cells)"
          "\<forall>cells'. r2 = Inr cells' \<longrightarrow>
              waiting None new2 = None \<and> map Some (submitted new2) = code_sources cells
              \<and> list_all2 passed cells cells'"
      by blast
    from Cons.prems c1 Inr c2 have w: "ws' = ws2"
      and r: "r = (case r2 of Inl e \<Rightarrow> Inl e | Inr cells' \<Rightarrow> Inr (cell' # cells'))"
      by (auto split: sum.splits)
    let ?new = "new1 @ new2"
    have t: "trace ws' = trace ws @ ?new" using w n1(1) n2(1) by simp
    have q: "sequential None ?new" using n1(2) n2(2) w1 by (simp add: sequential_append)
    have cl: "Close \<notin> set ?new" using n1(3) n2(3) by simp
    have se: "map Some (submitted ?new) = code_sources [cell] @ map Some (submitted new2)"
      using s1 by (simp add: submitted_append)
    have pr: "prefix (map Some (submitted ?new)) (code_sources (cell # cells))"
      unfolding se code_sources_Cons[of cell cells] using n2(4) by simp
    have fin: "waiting None ?new = None \<and> map Some (submitted ?new) = code_sources (cell # cells)
            \<and> list_all2 passed (cell # cells) cs" if "r = Inr cs" for cs
    proof -
      from that r obtain cells' where r2: "r2 = Inr cells'" and cs: "cs = cell' # cells'"
        by (auto split: sum.splits)
      from n2(5) r2 have "waiting None new2 = None"
        "map Some (submitted new2) = code_sources cells" "list_all2 passed cells cells'"
        by auto
      then show ?thesis
        unfolding se code_sources_Cons[of cell cells] cs
        using p1 w1 by (simp add: waiting_append)
    qed
    show ?thesis using t q cl pr fin by (intro exI[of _ ?new]) blast
  qed
qed

lemma sequential_simps_other:
  "sequential w (Load u # evs) = sequential w evs"
  "sequential w (Write u # evs) = sequential w evs"
  by simp_all

lemma run_notebook_effect:
  assumes "run_notebook ev self path ws = (r, ws')"
  shows "\<exists>new. trace ws' = trace ws @ new \<and> sequential None new \<and> Close \<notin> set new
           \<and> (\<forall>nb. r = Inr nb \<longrightarrow> waiting None new = None)"
proof (cases "then_do (conf_str self ''input'' server_uri_http_api_contents) (\<lambda>contents.
           then_do (conf_str self ''input'' handler_http_service_api_token) (\<lambda>api_token.
             Inr (contents @ ''/'' @ path @ ''?token='' @ api_token)))")
  case (Inl e)
  with assms have "r = Inl e" "ws' = ws" by (simp_all add: run_notebook_def)
  then show ?thesis by (intro exI[of _ "[]"]) simp
next
  case (Inr url)
  let ?ws1 = "ws\<lparr>trace := trace ws @ [Load url]\<rparr>"
  show ?thesis
  proof (cases "then_do (upstream (load_notebook_node ev url)) (\<lambda>nb_input.
               then_do (notebook_parameters ev self) (\<lambda>parameters.
               then_do (upstream (parameterize_notebook ev nb_input parameters)) (\<lambda>nb_output.
               then_do (subscript nb_output ''cells'') (\<lambda>cells.
               then_do (iter_cells cells) (\<lambda>cells. Inr (nb_output, cells))))))")
    case (Inl e)
    with assms Inr have "r = Inl e" "ws' = ?ws1" by (simp_all add: run_notebook_def Let_def)
    then show ?thesis by (intro exI[of _ "[Load url]"]) simp
  next
    case l: (Inr loaded)
    obtain nb_output cells where lo: "loaded = (nb_output, cells)" by (cases loaded) auto
    obtain r2 ws2 where c: "run_cells ev cells ?ws1 = (r2, ws2)"
      by (cases "run_cells ev cells ?ws1") auto
    from run_cells_effect[OF c] obtain new2 where
      n2: "trace ws2 = trace ws @ Load url # new2" "sequential None new2" "Close \<notin> set new2"
          "\<forall>cells'. r2 = Inr cells' \<longrightarrow> waiting None new2 = None"
      by auto
    show ?thesis
    proof (cases r2)
      case (Inl e)
      with assms Inr l lo c have "r = Inl e" "ws' = ws2"
        by (simp_all add: run_notebook_def Let_def)
      then show ?thesis using n2 by (intro exI[of _ "Load url # new2"]) simp
    next
      case r2: (Inr cells')
      with n2(4) have w2: "waiting None new2 = None" by simp
      show ?thesis
      proof (cases "then_do (with_cells nb_output cells') (\<lambda>nb.
                       then_do (output_path_pair ev self path) (\<lambda>(output_path, output_path_direct).
                         Inr (nb, output_path, output_path_direct)))")
        case (Inl e)
        with assms Inr l lo c r2 have "r = Inl e" "ws' = ws2"
          by (simp_all add: run_notebook_def Let_def)
        then show ?thesis using n2 by (intro exI[of _ "Load url # new2"]) simp
      next
        case o: (Inr out)
        obtain nb output_path output_path_direct where
          ou: "out = (nb, output_path, output_path_direct)" by (cases out) auto
        let ?new = "Load url # new2 @ [Write output_path]"
        from assms Inr l lo c r2 o ou have "trace ws' = trace ws2 @ [Write output_path]"
          by (auto simp: run_notebook_def Let_def split: option.splits)
        then have t: "trace ws' = trace ws @ ?new" using n2(1) by simp
        have q: "sequential None ?new" using n2(2) by (simp add: sequential_append)
        have cl: "Close \<notin> set ?new" using n2(3) by simp
        have w: "waiting None ?new = None" using w2 by (simp add: waiting_append)
        show ?thesis using t q cl w by blast
      qed
    qed
  qed
qed

lemma run_notebooks_effect:
  "run_notebooks ev self paths ws = (r, ws') \<Longrightarrow>
   \<exists>new. trace ws' = trace ws @ new \<and> sequential None new \<and> Close \<notin> set new
      \<and> (\<forall>nbs. r = Inr nbs \<longrightarrow> waiting None new = None)"
proof (induction paths arbitrary: ws r ws')
  case Nil
  then show ?case by (intro exI[of _ "[]"]) auto
next
  case (Cons path paths)
  obtain r1 ws1 where c1: "run_notebook ev self path ws = (r1, ws1)"
    by (cases "run_notebook ev self path ws") auto
  from run_notebook_effect[OF c1] obtain new1 where
    n1: "trace ws1 = trace ws @ new1" "sequential None new1" "Close \<notin> set new1"
        "\<forall>nb. r1 = Inr nb \<longrightarrow> waiting None new1 = None"
    by blast
  show ?case
  proof (cases r1)
    case (Inl e)
    with Cons.prems c1 have "r = Inl e" "ws' = ws1" by auto
    then show ?thesis using n1(1,2,3) by (intro exI[of _ new1]) auto
  next
    case (Inr nb)
    with n1(4) have w1: "waiting None new1 = None" by simp
    obtain r2 ws2 where c2: "run_notebooks ev self paths ws1 = (r2, ws2)"
      by (cases "run_notebooks ev self paths ws1") auto
    from Cons.IH[OF c2] obtain new2 where
      n2: "trace ws2 = trace ws1 @ new2" "sequential None new2" "Close \<notin> set new2"
          "\<forall>nbs. r2 = Inr nbs \<longrightarrow> waiting None new2 = None"
      by blast
    from Cons.prems c1 Inr c2 have w: "ws' = ws2"
      and r: "r = (case r2 of Inl e \<Rightarrow> Inl e | Inr nbs \<Rightarrow> Inr (nb # nbs))"
      by (auto split: sum.splits)
    have t: "trace ws' = trace ws @ (new1 @ new2)" using w n1(1) n2(1) by simp
    have q: "sequential None (new1 @ new2)" using n1(2) n2(2) w1 by (simp add: sequential_append)
    have cl: "Close \<notin> set (new1 @ new2)" using n1(3) n2(3) by simp
    have fin: "\<forall>nbs. r = Inr nbs \<longrightarrow> waiting None (new1 @ new2) = None"
      using r n2(4) w1 by (auto simp: waiting_append split: sum.splits)
    show ?thesis using t q cl fin by blast
  qed
qed

lemma remote_run_trace:
  "(case execute_notebook_remotely ev self of
      (Inl e, tr) \<Rightarrow> Close \<notin> set tr \<and> sequential None tr
    | (Inr results, tr) \<Rightarrow>
        (\<exists>tr'. tr = tr' @ [Close] \<and> Close \<notin> set tr' \<and> sequential None tr'))"
proof (cases "then_do (conf_str self ''input'' server_uri_http_api_kernels) (\<lambda>kernels.
           then_do (get_conf self ''input'' handler_http_headers) (\<lambda>_. Inr kernels))")
  case (Inl e)
  then show ?thesis by (simp add: execute_notebook_remotely_def)
next
  case (Inr kernels)
  show ?thesis
  proof (cases "then_do (upstream (fetch_kernel ev kernels)) (kernel_channel_url ev self)")
    case (Inl e)
    with Inr show ?thesis by (simp add: execute_notebook_remotely_def)
  next
    case u: (Inr url)
    show ?thesis
    proof (cases "websocket_connect ev url")
      case (Inl x)
      with Inr u show ?thesis by (simp add: execute_notebook_remotely_def)
    next
      case f: (Inr frames)
      let ?ws0 = "\<lparr>inbox = frames, issued = 0, trace = [StartKernel kernels, Connect url]\<rparr>"
      obtain r ws where c: "run_notebooks ev self (input_paths self) ?ws0 = (r, ws)"
        by (cases "run_notebooks ev self (input_paths self) ?ws0") auto
      from run_notebooks_effect[OF c] obtain new where
        n: "trace ws = [StartKernel kernels, Connect url] @ new" "sequential None new"
           "Close \<notin> set new"
        by auto
      have q: "sequential None (trace ws)" and cl: "Close \<notin> set (trace ws)"
        using n by simp_all
      show ?thesis
      proof (cases r)
        case (Inl e)
        with Inr u f c q cl show ?thesis by (simp add: execute_notebook_remotely_def)
      next
        case (Inr results)
        with \<open>then_do (conf_str self ''input'' server_uri_http_api_kernels) (\<lambda>kernels.
           then_do (get_conf self ''input'' handler_http_headers) (\<lambda>_. Inr kernels)) = Inr kernels\<close>
          u f c q cl show ?thesis by (simp add: execute_notebook_remotely_def)
      qed
    qed
  qed
qed

text \<open>
  Claim C4. Whatever the loop over the cells of a notebook has written, read and returned:
  its execute requests are written one at a time, none while an earlier one still waits
  for the message that ends its wait, and their codes are, in order, the sources of the
  first code cells of the notebook. When the loop ends without an exception there is one
  request for every code cell, in the order of the cells, every cell that is not a code
  cell is returned as it was, and a code cell differs from what it was in its
  \<^verbatim>\<open>outputs\<close> at most. The requests of a whole remote run are sequential in the same sense.
\<close>

theorem cells_in_order:
  "(run_cells ev cells ws = (r, ws') \<longrightarrow>
      (\<exists>new. trace ws' = trace ws @ new \<and> sequential None new
         \<and> prefix (map Some (submitted new)) (code_sources cells)
         \<and> (\<forall>cells'. r = Inr cells' \<longrightarrow>
               map Some (submitted new) = code_sources cells \<and> list_all2 passed cells cells')))
   \<and> sequential None (snd (execute_notebook_remotely ev self))"
proof (intro conjI impI)
  assume "run_cells ev cells ws = (r, ws')"
  from run_cells_effect[OF this]
  show "\<exists>new. trace ws' = trace ws @ new \<and> sequential None new
         \<and> prefix (map Some (submitted new)) (code_sources cells)
         \<and> (\<forall>cells'. r = Inr cells' \<longrightarrow>
               map Some (submitted new) = code_sources cells \<and> list_all2 passed cells cells')"
    by blast
next
  obtain r tr where e: "execute_notebook_remotely ev self = (r, tr)"
    by (cases "execute_notebook_remotely ev self") auto
  from remote_run_trace[of ev self] have "sequential None tr"
    unfolding e by (cases r) (auto simp: sequential_append)
  then show "sequential None (snd (execute_notebook_remotely ev self))"
    by (simp add: e)
qed

theorem cells_in_order_witness:
  "fst (run_cells demo_env
     [JObj [(''cell_type'', JStr ''markdown''), (''source'', JStr ''# title'')],
      JObj [(''cell_type'', JStr ''code''), (''source'', JStr ''print(1)'')],
      JObj [(''cell_type'', JStr ''code''), (''source'', JStr ''print(2)'')]]
     \<lparr>inbox = [Inr (demo_stream ''a''),
               Inr (demo_message ''execute_reply'' ''a''),
               Inr (demo_message ''execute_reply'' ''aa'')],
       issued = 0, trace = []\<rparr>)
   = Inr [JObj [(''cell_type'', JStr ''markdown''), (''source'', JStr ''# title'')],
          JObj [(''cell_type'', JStr ''code''), (''source'', JStr ''print(1)''),
                (''outputs'',
                 JArr [JObj [(''output_type'', JStr ''stream''), (''name'', JStr ''stdout''),
                             (''text'', JStr ''1'')]])],
          JObj [(''cell_type'', JStr ''code''), (''source'', JStr ''print(2)''),
                (''outputs'', JArr [])]]
   \<and> submitted (trace (snd (run_cells demo_env
     [JObj [(''cell_type'', JStr ''markdown''), (''source'', JStr ''# title'')],
      JObj [(''cell_type'', JStr ''code''), (''source'', JStr ''print(1)'')],
      JObj [(''cell_type'', JStr ''code''), (''source'', JStr ''print(2)'')]]
     \<lparr>inbox = [Inr (demo_stream ''a''),
               Inr (demo_message ''execute_reply'' ''a''),
               Inr (demo_message ''execute_reply'' ''aa'')],
       issued = 0, trace = []\<rparr>)))
   = [JStr ''print(1)'', JStr ''print(2)'']"
proof -
  let ?cells = "[JObj [(''cell_type'', JStr ''markdown''), (''source'', JStr ''# title'')],
      JObj [(''cell_type'', JStr ''code''), (''source'', JStr ''print(1)'')],
      JObj [(''cell_type'', JStr ''code''), (''source'', JStr ''print(2)'')]]"
  let ?ws = "\<lparr>inbox = [Inr (demo_stream ''a''),
               Inr (demo_message ''execute_reply'' ''a''),
               Inr (demo_message ''execute_reply'' ''aa'')],
       issued = 0, trace = []\<rparr>"
  let ?cells' = "[JObj [(''cell_type'', JStr ''markdown''), (''source'', JStr ''# title'')],
          JObj [(''cell_type'', JStr ''code''), (''source'', JStr ''print(1)''),
                (''outputs'',
                 JArr [JObj [(''output_type'', JStr ''stream''), (''name'', JStr ''stdout''),
                             (''text'', JStr ''1'')]])],
          JObj [(''cell_type'', JStr ''code''), (''source'', JStr ''print(2)''),
                (''outputs'', JArr [])]]"
  obtain r ws' where p: "run_cells demo_env ?cells ?ws = (r, ws')"
    by (cases "run_cells demo_env ?cells ?ws") auto
  have f: "fst (run_cells demo_env ?cells ?ws) = Inr ?cells'"
    by code_simp
  with p have r: "r = Inr ?cells'" by simp
  have c: "code_sources ?cells = [Some (JStr ''print(1)''), Some (JStr ''print(2)'')]"
    by code_simp
  from cells_in_order[of demo_env ?cells ?ws r ws'] p obtain new where
    n: "trace ws' = trace ?ws @ new"
       "\<forall>cells'. r = Inr cells' \<longrightarrow> map Some (submitted new) = code_sources ?cells"
    by blast
  from n(2) r c have "map Some (submitted new) = map Some [JStr ''print(1)'', JStr ''print(2)'']"
    by simp
  then have "submitted new = [JStr ''print(1)'', JStr ''print(2)'']"
    by (simp only: inj_map_eq_map[OF inj_Some])
  moreover have "trace ws' = new" using n(1) by simp
  ultimately show ?thesis using f p by simp
qed

section \<open>The websocket of a remote run\<close>

text \<open>
  Claim C7, as the code has it. \<^verbatim>\<open>ws.close()\<close> is the statement after the loop over the
  notebooks, and nothing else closes the websocket: a remote run that returns its results
  has closed the websocket once, as the last thing it did; a remote run that ends with an
  exception, wherever it is raised, has not closed it.
\<close>

theorem channel_closed_after_success:
  "(case execute_notebook_remotely ev self of
      (Inl e, tr) \<Rightarrow> Close \<notin> set tr
    | (Inr results, tr) \<Rightarrow> count_list tr Close = 1 \<and> last tr = Close)"
proof -
  obtain r tr where e: "execute_notebook_remotely ev self = (r, tr)"
    by (cases "execute_notebook_remotely ev self") auto
  show ?thesis
  proof (cases r)
    case (Inl x)
    with remote_run_trace[of ev self] e show ?thesis by simp
  next
    case (Inr results)
    with remote_run_trace[of ev self] e obtain tr' where
      t: "tr = tr' @ [Close]" "Close \<notin> set tr'" by auto
    from t(2) have "count_list tr' Close = 0" by (simp add: count_list_0_iff)
    with t(1) e Inr show ?thesis by simp
  qed
qed

theorem channel_closed_after_success_witness:
  "snd (execute_notebook_remotely demo_env demo_analyzer) =
     [StartKernel ''http://nb/api/kernels'',
      Connect ''ws://nb/api/kernels/k1/channels'',
      Load ''http://nb/api/contents//a.ipynb?token=abcdef'',
      Send ''a'' (JStr ''print(1)''),
      Recv (Inr (demo_message ''status'' ''a'')),
      Recv (Inr (demo_stream ''a'')),
      Write ''http://nb/api/contents/out/2024-01-31-1.2.3.4-a.ipynb?token=abc'',
      Close]
   \<and> count_list (snd (execute_notebook_remotely demo_env demo_analyzer)) Close = 1"
proof -
  obtain r tr where p: "execute_notebook_remotely demo_env demo_analyzer = (r, tr)"
    by (cases "execute_notebook_remotely demo_env demo_analyzer") auto
  have "\<not> isl (fst (execute_notebook_remotely demo_env demo_analyzer))"
    by code_simp
  with p obtain results where r: "r = Inr results" by (cases r) auto
  have t: "snd (execute_notebook_remotely demo_env demo_analyzer) =
     [StartKernel ''http://nb/api/kernels'',
      Connect ''ws://nb/api/kernels/k1/channels'',
      Load ''http://nb/api/contents//a.ipynb?token=abcdef'',
      Send ''a'' (JStr ''print(1)''),
      Recv (Inr (demo_message ''status'' ''a'')),
      Recv (Inr (demo_stream ''a'')),
      Write ''http://nb/api/contents/out/2024-01-31-1.2.3.4-a.ipynb?token=abc'',
      Close]"
    by code_simp
  from channel_closed_after_success[of demo_env demo_analyzer] p r
  have "count_list tr Close = 1" by simp
  with t p show ?thesis by simp
qed

text \<open>
  The kernel answers the first cell with an \<^verbatim>\<open>error\<close> message: the run ends through
  \<^verbatim>\<open>self.error\<close> with the websocket opened and never closed.
\<close>

theorem channel_left_open_counterexample:
  "execute_notebook_remotely
     (demo_env\<lparr>websocket_connect := (\<lambda>_. Inr
        [Inr (JObj [(''msg_type'', JStr ''error''),
                    (''parent_header'', JObj [(''msg_id'', JStr ''a'')])])])\<rparr>)
     demo_analyzer
   = (Inl (AnalyzerError
        ''ERROR - Something went wrong during the code processing. Remote kernel returns: {...}''),
      [StartKernel ''http://nb/api/kernels'',
       Connect ''ws://nb/api/kernels/k1/channels'',
       Load ''http://nb/api/contents//a.ipynb?token=abcdef'',
       Send ''a'' (JStr ''print(1)''),
       Recv (Inr (JObj [(''msg_type'', JStr ''error''),
                        (''parent_header'', JObj [(''msg_id'', JStr ''a'')])]))])"
  by code_simp

end
